theory Spec2Isabelle
  imports Complex_Main "HOL-Library.Multiset" "HOL-Library.List_Lexorder" "HOL-Library.Char_ord"
begin

section \<open>Values of the host language\<close>

text \<open>
  The records handled by \<^verbatim>\<open>app.py\<close> are whatever \<^verbatim>\<open>response.json()\<close> returns: Python
  values built from \<^verbatim>\<open>None\<close>, booleans, integers, floats, strings, lists and dicts. A dict is
  kept as the list of its items (keys distinct, in insertion order). Floats are values of a
  type parameter \<open>'f\<close>: their arithmetic belongs to the interpreter, see \<open>runtime\<close> below.
  A string is a list of characters, each read as the code point of its number, U+0000 to
  U+00FF; text with code points beyond these is outside the model.
\<close>

datatype 'f json =
    JNull
  | JBool bool
  | JInt int
  | JFloat 'f
  | JStr string
  | JArr "'f json list"
  | JObj "(string \<times> 'f json) list"

text \<open>Every exception that the modelled code can raise is a value.\<close>

datatype py_error =
    AttributeError
  | TypeError
  | ValueError
  | KeyError
  | IndexError
  | OverflowError
  | ConnectionError
  | JSONDecodeError
  | HTTPError nat

text \<open>
  The primitives of the interpreter and of the libraries that \<^verbatim>\<open>app.py\<close> calls and whose
  code is not part of the repository. Every definition below takes them as the argument
  \<open>F\<close>, and every theorem holds for all of them.
  \<^item> \<open>float_of_str\<close>: \<^verbatim>\<open>float(s)\<close> on a string, \<open>None\<close> for \<^verbatim>\<open>ValueError\<close>;
  \<^item> \<open>float_of_int\<close>: \<^verbatim>\<open>float(n)\<close> on an integer, \<open>None\<close> for \<^verbatim>\<open>OverflowError\<close>;
  \<^item> \<open>float_is_zero\<close>: \<^verbatim>\<open>x == 0\<close>;
  \<^item> \<open>float_sum\<close>: \<^verbatim>\<open>sum(values)\<close> on a list of floats;
  \<^item> \<open>float_div\<close>: \<^verbatim>\<open>x / n\<close> for a positive integer \<open>n\<close>;
  \<^item> \<open>float_fmt2\<close>: \<^verbatim>\<open>f"{x:.2f}"\<close>;
  \<^item> \<open>float_str\<close>: \<^verbatim>\<open>str(x)\<close>;
  \<^item> \<open>int_ge_float\<close>: \<^verbatim>\<open>n >= x\<close> for an integer \<open>n\<close>;
  \<^item> \<open>container_str\<close>: \<^verbatim>\<open>str(v)\<close> for a list or a dict;
  \<^item> \<open>wrap\<close>: \<^verbatim>\<open>textwrap.wrap(text, 100)\<close>;
  \<^item> \<open>int_max_str_digits\<close>: \<^verbatim>\<open>sys.get_int_max_str_digits()\<close>, 0 for no limit.
\<close>

record 'f runtime =
  float_of_str :: "string \<Rightarrow> 'f option"
  float_of_int :: "int \<Rightarrow> 'f option"
  float_is_zero :: "'f \<Rightarrow> bool"
  float_sum :: "'f list \<Rightarrow> 'f"
  float_div :: "'f \<Rightarrow> nat \<Rightarrow> 'f"
  float_fmt2 :: "'f \<Rightarrow> string"
  float_str :: "'f \<Rightarrow> string"
  int_ge_float :: "int \<Rightarrow> 'f \<Rightarrow> bool"
  container_str :: "'f json \<Rightarrow> string"
  wrap :: "string \<Rightarrow> string list"
  int_max_str_digits :: nat

text \<open>Sequencing of steps that may raise: the first exception ends the computation.\<close>

definition after :: "'e + 'a \<Rightarrow> ('a \<Rightarrow> 'e + 'b) \<Rightarrow> 'e + 'b" where
  "after r f = (case r of Inl e \<Rightarrow> Inl e | Inr x \<Rightarrow> f x)"

subsection \<open>Truth value, \<^verbatim>\<open>or\<close>, \<^verbatim>\<open>dict.get\<close>\<close>

fun truthy :: "'f runtime \<Rightarrow> 'f json \<Rightarrow> bool" where
  "truthy F JNull = False"
| "truthy F (JBool b) = b"
| "truthy F (JInt n) = (n \<noteq> 0)"
| "truthy F (JFloat x) = (\<not> float_is_zero F x)"
| "truthy F (JStr s) = (s \<noteq> [])"
| "truthy F (JArr xs) = (xs \<noteq> [])"
| "truthy F (JObj kvs) = (kvs \<noteq> [])"

definition py_or :: "'f runtime \<Rightarrow> 'f json \<Rightarrow> 'f json \<Rightarrow> 'f json" where
  "py_or F a b = (if truthy F a then a else b)"

text \<open>\<^verbatim>\<open>d.get(k, default)\<close>: only a dict has the method.\<close>

fun py_get :: "'f json \<Rightarrow> string \<Rightarrow> 'f json \<Rightarrow> py_error + 'f json" where
  "py_get (JObj kvs) k d = Inr (case map_of kvs k of None \<Rightarrow> d | Some v \<Rightarrow> v)"
| "py_get _ k d = Inl AttributeError"

subsection \<open>Integers and strings\<close>

fun str_of_nat :: "nat \<Rightarrow> string" where
  "str_of_nat n =
     (if n < 10 then [''0123456789'' ! n]
      else str_of_nat (n div 10) @ [''0123456789'' ! (n mod 10)])"

declare str_of_nat.simps [simp del]

definition str_of_int :: "int \<Rightarrow> string" where
  "str_of_int i = (if i < 0 then CHR ''-'' # str_of_nat (nat (- i)) else str_of_nat (nat i))"

text \<open>\<^verbatim>\<open>str(v)\<close>, as an f-string field renders a value.\<close>

fun py_str :: "'f runtime \<Rightarrow> 'f json \<Rightarrow> string" where
  "py_str F JNull = ''None''"
| "py_str F (JBool b) = (if b then ''True'' else ''False'')"
| "py_str F (JInt n) = str_of_int n"
| "py_str F (JFloat x) = float_str F x"
| "py_str F (JStr s) = s"
| "py_str F (JArr xs) = container_str F (JArr xs)"
| "py_str F (JObj kvs) = container_str F (JObj kvs)"

text \<open>\<^verbatim>\<open>s.split(sep)\<close> for a one-character separator.\<close>

fun split_on :: "char \<Rightarrow> string \<Rightarrow> string list" where
  "split_on sep [] = [[]]"
| "split_on sep (c # cs) =
     (if c = sep then [] # split_on sep cs
      else (case split_on sep cs of
              [] \<Rightarrow> [[c]]
            | p # ps \<Rightarrow> (c # p) # ps))"

text \<open>
  \<^verbatim>\<open>int(s)\<close> on a string: surrounding whitespace is stripped, a sign may lead, the digits
  are decimal and may be grouped by single underscores; beyond 640 digits, more digits
  than the interpreter's limit are refused. \<open>None\<close> stands for \<^verbatim>\<open>ValueError\<close>. Among the code
  points up to U+00FF, the whitespace that \<^verbatim>\<open>int\<close> strips is tab, line feed, vertical tab,
  form feed, carriage return, space, U+0085 and U+00A0 (the separators U+001C to U+001F
  are not stripped), and the decimal digits are 0 to 9.
\<close>

definition is_space :: "char \<Rightarrow> bool" where
  "is_space c = (c \<in> set [CHR 0x09, CHR 0x0A, CHR 0x0B, CHR 0x0C, CHR 0x0D, CHR '' '',
                           CHR 0x85, CHR 0xA0])"

definition strip :: "string \<Rightarrow> string" where
  "strip s = rev (dropWhile is_space (rev (dropWhile is_space s)))"

definition digit_val :: "char \<Rightarrow> nat option" where
  "digit_val c =
     map_of [(CHR ''0'', 0), (CHR ''1'', 1), (CHR ''2'', 2), (CHR ''3'', 3), (CHR ''4'', 4),
             (CHR ''5'', 5), (CHR ''6'', 6), (CHR ''7'', 7), (CHR ''8'', 8), (CHR ''9'', 9)] c"

definition is_digit :: "char \<Rightarrow> bool" where
  "is_digit c = (digit_val c \<noteq> None)"

definition nat_of_digits :: "string \<Rightarrow> nat" where
  "nat_of_digits ds =
     foldl (\<lambda>acc c. 10 * acc + (case digit_val c of Some d \<Rightarrow> d | None \<Rightarrow> 0)) 0 ds"

definition int_of_str :: "'f runtime \<Rightarrow> string \<Rightarrow> int option" where
  "int_of_str F s =
     (let t = strip s;
          neg = (t \<noteq> [] \<and> hd t = CHR ''-'');
          body = (if t \<noteq> [] \<and> (hd t = CHR ''-'' \<or> hd t = CHR ''+'') then tl t else t);
          groups = split_on CHR ''_'' body;
          ds = concat groups
      in if list_all (\<lambda>g. g \<noteq> [] \<and> list_all is_digit g) groups
            \<and> (length ds \<le> 640 \<or> int_max_str_digits F = 0
                 \<or> length ds \<le> int_max_str_digits F)
         then Some (if neg then - int (nat_of_digits ds) else int (nat_of_digits ds))
         else None)"

section \<open>Sorting identifiers numerically\<close>

text \<open>
  \<^verbatim>\<open>identifier_key(item)\<close>. \<^verbatim>\<open>item.get\<close> needs a dict, \<^verbatim>\<open>.split\<close> needs a string; a segment
  that \<^verbatim>\<open>int\<close> refuses counts as 0.
\<close>

definition segment_value :: "'f runtime \<Rightarrow> string \<Rightarrow> int" where
  "segment_value F part = (case int_of_str F part of Some n \<Rightarrow> n | None \<Rightarrow> 0)"

definition identifier_key :: "'f runtime \<Rightarrow> 'f json \<Rightarrow> py_error + int list" where
  "identifier_key F item =
     after (py_get item ''control'' JNull) (\<lambda>control.
     after (py_get (py_or F control (JObj [])) ''identifier'' (JStr '''')) (\<lambda>identifier.
       case identifier of
         JStr s \<Rightarrow> Inr (map (segment_value F) (split_on CHR ''.'' s))
       | _ \<Rightarrow> Inl AttributeError))"

text \<open>
  \<^verbatim>\<open>controls.sort(key=identifier_key)\<close>. The keys are computed first, one per item and in
  order; an exception among them leaves the list as it was. Then the items are sorted by
  their keys, lists of integers compared as Python compares lists (lexicographically, a
  proper prefix first), and the sort is stable. A stable sort has one result only, so
  insertion by key stands for the interpreter's algorithm.
\<close>

fun collect :: "('e + 'a) list \<Rightarrow> 'e + 'a list" where
  "collect [] = Inr []"
| "collect (r # rs) =
     (case r of
        Inl e \<Rightarrow> Inl e
      | Inr x \<Rightarrow> (case collect rs of Inl e \<Rightarrow> Inl e | Inr xs \<Rightarrow> Inr (x # xs)))"

definition py_sort :: "'f runtime \<Rightarrow> 'f json list \<Rightarrow> py_error + 'f json list" where
  "py_sort F controls =
     (case collect (map (identifier_key F) controls) of
        Inl e \<Rightarrow> Inl e
      | Inr keys \<Rightarrow> Inr (map snd (sort_key fst (zip keys controls))))"

section \<open>PDF generation\<close>

text \<open>
  The canvas is the list of the calls made on it, in order; \<^verbatim>\<open>c.save()\<close> closes it. The
  layout state is the canvas together with the cursor \<^verbatim>\<open>y\<close> that \<^verbatim>\<open>draw_wrapped\<close> shares
  with \<^verbatim>\<open>generate_pdf\<close>. The page is \<^verbatim>\<open>LETTER\<close>, 612 by 792 points; every value that the
  cursor takes is a whole number of points.
\<close>

datatype canvas_op =
    SetFont string nat
  | DrawString int int string
  | ShowPage
  | Save

record layout =
  canvas :: "canvas_op list"
  cursor :: int

abbreviation height :: int where "height \<equiv> 792"
abbreviation x_margin :: int where "x_margin \<equiv> 40"
abbreviation y_margin :: int where "y_margin \<equiv> 40"
abbreviation line_height :: int where "line_height \<equiv> 14"

definition setFont :: "string \<Rightarrow> nat \<Rightarrow> layout \<Rightarrow> layout" where
  "setFont name sz st = st\<lparr>canvas := canvas st @ [SetFont name sz]\<rparr>"

definition drawString :: "int \<Rightarrow> int \<Rightarrow> string \<Rightarrow> layout \<Rightarrow> layout" where
  "drawString x y text st = st\<lparr>canvas := canvas st @ [DrawString x y text]\<rparr>"

definition showPage :: "layout \<Rightarrow> layout" where
  "showPage st = st\<lparr>canvas := canvas st @ [ShowPage]\<rparr>"

text \<open>The body of the loop of \<^verbatim>\<open>draw_wrapped\<close>: one physical line.\<close>

definition draw_line :: "string \<Rightarrow> layout \<Rightarrow> layout" where
  "draw_line line st =
     (let st1 = (if cursor st \<le> y_margin
                 then (setFont ''Helvetica'' 10 (showPage st))\<lparr>cursor := height - y_margin\<rparr>
                 else st);
          st2 = drawString x_margin (cursor st1) line st1
      in st2\<lparr>cursor := cursor st2 - line_height\<rparr>)"

definition draw_wrapped :: "'f runtime \<Rightarrow> string \<Rightarrow> layout \<Rightarrow> layout" where
  "draw_wrapped F text st = fold draw_line (wrap F text) st"

subsection \<open>The score of a record\<close>

text \<open>\<^verbatim>\<open>formula[0]\<close> on a value that is not empty.\<close>

fun py_first :: "'f json \<Rightarrow> py_error + 'f json" where
  "py_first (JArr (x # xs)) = Inr x"
| "py_first (JArr []) = Inl IndexError"
| "py_first (JStr (c # cs)) = Inr (JStr [c])"
| "py_first (JStr []) = Inl IndexError"
| "py_first (JObj kvs) = Inl KeyError"
| "py_first _ = Inl TypeError"

text \<open>
  Lines 120 to 122, and again 152 to 154:
  \<^verbatim>\<open>attrs = item.get("attributes") or {}\<close>,
  \<^verbatim>\<open>formula = attrs.get("AttributeFormulaValue.value1_2") or []\<close>,
  \<^verbatim>\<open>val = formula[0].get("value") if formula else None\<close>.
\<close>

definition formula_value :: "'f runtime \<Rightarrow> 'f json \<Rightarrow> py_error + 'f json" where
  "formula_value F item =
     after (py_get item ''attributes'' JNull) (\<lambda>a.
     after (py_get (py_or F a (JObj [])) ''AttributeFormulaValue.value1_2'' JNull) (\<lambda>f.
       let formula = py_or F f (JArr [])
       in if truthy F formula
          then after (py_first formula) (\<lambda>entry. py_get entry ''value'' JNull)
          else Inr JNull))"

text \<open>
  \<^verbatim>\<open>val in (None, "0", 0)\<close>: membership compares with \<^verbatim>\<open>==\<close>, under which \<^verbatim>\<open>False\<close> and
  \<^verbatim>\<open>0.0\<close> equal 0.
\<close>

fun not_applicable :: "'f runtime \<Rightarrow> 'f json \<Rightarrow> bool" where
  "not_applicable F JNull = True"
| "not_applicable F (JStr s) = (s = ''0'')"
| "not_applicable F (JInt n) = (n = 0)"
| "not_applicable F (JBool b) = (b = False)"
| "not_applicable F (JFloat x) = float_is_zero F x"
| "not_applicable F (JArr xs) = False"
| "not_applicable F (JObj kvs) = False"

text \<open>\<^verbatim>\<open>float(val)\<close>.\<close>

fun py_float :: "'f runtime \<Rightarrow> 'f json \<Rightarrow> py_error + 'f" where
  "py_float F (JStr s) = (case float_of_str F s of None \<Rightarrow> Inl ValueError | Some x \<Rightarrow> Inr x)"
| "py_float F (JInt n) = (case float_of_int F n of None \<Rightarrow> Inl OverflowError | Some x \<Rightarrow> Inr x)"
| "py_float F (JBool b) =
     (case float_of_int F (if b then 1 else 0) of None \<Rightarrow> Inl OverflowError | Some x \<Rightarrow> Inr x)"
| "py_float F (JFloat x) = Inr x"
| "py_float F _ = Inl TypeError"

text \<open>
  The body of the loop of lines 119 to 127: what one record adds to \<^verbatim>\<open>values\<close>. Only
  \<^verbatim>\<open>ValueError\<close> is caught.
\<close>

definition score_of :: "'f runtime \<Rightarrow> 'f json \<Rightarrow> py_error + 'f list" where
  "score_of F item =
     after (formula_value F item) (\<lambda>val.
       if \<not> not_applicable F val
       then (case py_float F val of
               Inr x \<Rightarrow> Inr [x]
             | Inl ValueError \<Rightarrow> Inr []
             | Inl e \<Rightarrow> Inl e)
       else Inr [])"

fun score_values :: "'f runtime \<Rightarrow> 'f json list \<Rightarrow> 'f list \<Rightarrow> py_error + 'f list" where
  "score_values F [] values = Inr values"
| "score_values F (item # items) values =
     after (score_of F item) (\<lambda>v. score_values F items (values @ v))"

subsection \<open>The company name\<close>

text \<open>The loop of lines 107 to 116; each \<^verbatim>\<open>break\<close> ends the scan.\<close>

fun company_name :: "'f runtime \<Rightarrow> 'f json list \<Rightarrow> py_error + 'f json" where
  "company_name F [] = Inr (JStr ''Unknown Company'')"
| "company_name F (item # items) =
     after (py_get item ''control'' JNull) (\<lambda>c.
     after (py_get (py_or F c (JObj [])) ''orgGroupName'' JNull) (\<lambda>org.
       if truthy F org then Inr org
       else
         after (py_get item ''primaryEntity'' JNull) (\<lambda>p.
         after (py_get (py_or F p (JObj [])) ''name'' JNull) (\<lambda>name.
           if truthy F name then Inr name
           else company_name F items))))"

subsection \<open>The body\<close>

text \<open>The body of the loop of lines 146 to 164: one record.\<close>

definition render_item :: "'f runtime \<Rightarrow> 'f json \<Rightarrow> layout \<Rightarrow> py_error + layout" where
  "render_item F item st =
     after (py_get item ''control'' JNull) (\<lambda>c.
       let control = py_or F c (JObj []) in
     after (py_get control ''identifier'' (JStr ''N/A'')) (\<lambda>identifier.
     after (py_get control ''name'' (JStr ''N/A'')) (\<lambda>name.
     after (py_get control ''description'' (JStr ''N/A'')) (\<lambda>description.
     after (formula_value F item) (\<lambda>raw_value.
       let val = (if \<not> not_applicable F raw_value then raw_value else JStr ''N/A'') in
     after (py_get item ''effectivenessInfo'' JNull) (\<lambda>e.
     after (py_get (py_or F e (JObj [])) ''name'' (JStr ''N/A'')) (\<lambda>effectiveness.
       let st1 = draw_wrapped F (''Identifier    : '' @ py_str F identifier) st;
           st2 = draw_wrapped F (''Name          : '' @ py_str F name) st1;
           st3 = draw_wrapped F (''Description   : '' @ py_str F description) st2;
           st4 = draw_wrapped F (''Value         : '' @ py_str F val) st3;
           st5 = draw_wrapped F (''Effectiveness : '' @ py_str F effectiveness) st4
       in Inr (draw_wrapped F (replicate 90 CHR ''-'') st5))))))))"

fun render_items :: "'f runtime \<Rightarrow> 'f json list \<Rightarrow> layout \<Rightarrow> py_error + layout" where
  "render_items F [] st = Inr st"
| "render_items F (item # items) st =
     after (render_item F item st) (\<lambda>st'. render_items F items st')"

subsection \<open>\<^verbatim>\<open>generate_pdf\<close>\<close>

text \<open>
  The result is a pair: the list that the caller passed, as the call leaves it, and either
  the exception that ended the call or the canvas that was saved into the buffer.
\<close>

definition avg_text :: "'f runtime \<Rightarrow> 'f list \<Rightarrow> string" where
  "avg_text F values =
     (let avg = (if values \<noteq> []
                 then Some (float_div F (float_sum F values) (length values))
                 else None)
      in case avg of
           Some a \<Rightarrow> ''Average Score of Applicable Controls: '' @ float_fmt2 F a
         | None \<Rightarrow> ''Average Score of Applicable Controls: N/A'')"

definition render_sorted :: "'f runtime \<Rightarrow> 'f json list \<Rightarrow> py_error + canvas_op list" where
  "render_sorted F controls =
     after (company_name F controls) (\<lambda>company.
     after (score_values F controls []) (\<lambda>values.
       let st0 = \<lparr>canvas = [], cursor = height - y_margin\<rparr>;
           st1 = setFont ''Helvetica-Bold'' 14 st0;
           st2 = drawString x_margin (cursor st1)
                   (''OneTrust Controls Summary - '' @ py_str F company) st1;
           st3 = st2\<lparr>cursor := cursor st2 - 20\<rparr>;
           st4 = setFont ''Helvetica-Bold'' 12 st3;
           st5 = drawString x_margin (cursor st4) (avg_text F values) st4;
           st6 = st5\<lparr>cursor := cursor st5 - 30\<rparr>;
           st7 = setFont ''Helvetica'' 10 st6
       in after (render_items F controls st7) (\<lambda>st8. Inr (canvas st8 @ [Save]))))"

definition generate_pdf ::
  "'f runtime \<Rightarrow> 'f json list \<Rightarrow> 'f json list \<times> (py_error + canvas_op list)" where
  "generate_pdf F controls =
     (case py_sort F controls of
        Inl e \<Rightarrow> (controls, Inl e)
      | Inr sorted_controls \<Rightarrow> (sorted_controls, render_sorted F sorted_controls))"

section \<open>Fetching the controls\<close>

text \<open>
  The upstream service is a function from the request to what \<^verbatim>\<open>requests.post\<close> gets back:
  no response at all (the call itself raises), or a response with its status code and with
  the value of \<^verbatim>\<open>response.json()\<close> when its body is JSON.
\<close>

record request =
  url_page :: nat
  url_size :: nat
  organizationId :: string

datatype 'f response =
    NoResponse
  | Response nat "'f json option"

text \<open>
  \<^verbatim>\<open>response.raise_for_status()\<close>: the library raises \<^verbatim>\<open>HTTPError\<close> for the client errors, 400
  to 499, and for the server errors, 500 to 599, and returns for every other status code.
\<close>

definition raise_for_status :: "nat \<Rightarrow> py_error + unit" where
  "raise_for_status status =
     (if 400 \<le> status \<and> status < 500 then Inl (HTTPError status)
      else if 500 \<le> status \<and> status < 600 then Inl (HTTPError status)
      else Inr ())"

text \<open>\<^verbatim>\<open>controls.extend(v)\<close>: a string yields its characters, a dict its keys.\<close>

fun py_extend :: "'f json list \<Rightarrow> 'f json \<Rightarrow> py_error + 'f json list" where
  "py_extend controls (JArr xs) = Inr (controls @ xs)"
| "py_extend controls (JStr s) = Inr (controls @ map (\<lambda>c. JStr [c]) s)"
| "py_extend controls (JObj kvs) = Inr (controls @ map (\<lambda>kv. JStr (fst kv)) kvs)"
| "py_extend controls _ = Inl TypeError"

text \<open>\<^verbatim>\<open>page >= total_pages\<close> for the integer \<^verbatim>\<open>page\<close>.\<close>

fun py_ge :: "'f runtime \<Rightarrow> int \<Rightarrow> 'f json \<Rightarrow> py_error + bool" where
  "py_ge F n (JInt m) = Inr (m \<le> n)"
| "py_ge F n (JBool b) = Inr ((if b then 1 else 0) \<le> n)"
| "py_ge F n (JFloat x) = Inr (int_ge_float F n x)"
| "py_ge F n _ = Inl TypeError"

definition page_request :: "string \<Rightarrow> nat \<Rightarrow> request" where
  "page_request org_id page = \<lparr>url_page = page, url_size = 50, organizationId = org_id\<rparr>"

text \<open>
  One turn of the loop, from the request to the test that ends it: the list as extended
  and whether the loop breaks.
\<close>

definition fetch_page ::
  "'f runtime \<Rightarrow> (request \<Rightarrow> 'f response) \<Rightarrow> string \<Rightarrow> nat \<Rightarrow> 'f json list
     \<Rightarrow> py_error + ('f json list \<times> bool)" where
  "fetch_page F server org_id page controls =
     (case server (page_request org_id page) of
        NoResponse \<Rightarrow> Inl ConnectionError
      | Response status body \<Rightarrow>
          after (raise_for_status status) (\<lambda>_.
          after (case body of None \<Rightarrow> Inl JSONDecodeError | Some data \<Rightarrow> Inr data) (\<lambda>data.
          after (py_get data ''content'' (JArr [])) (\<lambda>content.
          after (py_extend controls content) (\<lambda>controls'.
          after (py_get data ''totalPages'' (JInt 1)) (\<lambda>total_pages.
          after (py_ge F (int (page + 1)) total_pages) (\<lambda>stop.
            Inr (controls', stop))))))))"

text \<open>
  The loop. Its result is the list of the requests sent, in order, and the exception raised
  or the list returned. Nothing bounds the number of turns, so the loop is a partial
  function: \<open>None\<close> is a run that never ends.
\<close>

partial_function (option) fetch_loop ::
  "'f runtime \<Rightarrow> (request \<Rightarrow> 'f response) \<Rightarrow> string \<Rightarrow> nat \<Rightarrow> 'f json list \<Rightarrow> request list
     \<Rightarrow> (request list \<times> (py_error + 'f json list)) option" where
  "fetch_loop F server org_id page controls sent =
     (case fetch_page F server org_id page controls of
        Inl e \<Rightarrow> Some (sent @ [page_request org_id page], Inl e)
      | Inr (controls', stop) \<Rightarrow>
          if stop then Some (sent @ [page_request org_id page], Inr controls')
          else fetch_loop F server org_id (page + 1) controls' (sent @ [page_request org_id page]))"

definition fetch_controls ::
  "'f runtime \<Rightarrow> (request \<Rightarrow> 'f response) \<Rightarrow> string
     \<Rightarrow> (request list \<times> (py_error + 'f json list)) option" where
  "fetch_controls F server org_id = fetch_loop F server org_id 0 [] []"

section \<open>The download endpoint\<close>

text \<open>
  \<^verbatim>\<open>download_report(org_id)\<close>: an exception of either stage ends the request; otherwise the
  canvas is sent under the name \<^verbatim>\<open>controls_{org_id}.pdf\<close>.
\<close>

definition download_report ::
  "'f runtime \<Rightarrow> (request \<Rightarrow> 'f response) \<Rightarrow> string
     \<Rightarrow> (py_error + (canvas_op list \<times> string)) option" where
  "download_report F server org_id =
     (case fetch_controls F server org_id of
        None \<Rightarrow> None
      | Some (sent, Inl e) \<Rightarrow> Some (Inl e)
      | Some (sent, Inr controls) \<Rightarrow>
          Some (after (snd (generate_pdf F controls)) (\<lambda>pdf.
                  Inr (pdf, ''controls_'' @ org_id @ ''.pdf''))))"

section \<open>An interpreter for the examples\<close>

text \<open>
  The examples are evaluated with floats that are exact rationals. This interpreter agrees
  with CPython where no rounding occurs: on plain decimal literals (a sign, digits, a
  point) whose values and whose sums and quotients are doubles. Its \<open>wrap\<close> cuts the text
  every 100 characters, as \<^verbatim>\<open>textwrap.wrap\<close> does to a text without leading or trailing
  whitespace and without hyphens that either fits in 100 characters or runs over them in
  a single word longer than a line. Its \<open>container_str\<close> quotes strings with single
  quotes and escapes nothing.
\<close>

definition example_float_of_str :: "string \<Rightarrow> rat option" where
  "example_float_of_str s =
     (let t = strip s;
          neg = (t \<noteq> [] \<and> hd t = CHR ''-'');
          body = (if t \<noteq> [] \<and> (hd t = CHR ''-'' \<or> hd t = CHR ''+'') then tl t else t);
          parts = split_on CHR ''.'' body;
          ip = hd parts;
          fp = concat (tl parts)
      in if length parts \<le> 2 \<and> ip @ fp \<noteq> [] \<and> list_all is_digit (ip @ fp)
         then Some ((if neg then - 1 else 1)
                    * (of_nat (nat_of_digits (ip @ fp)) / of_nat (10 ^ length fp)))
         else None)"

definition example_fmt2 :: "rat \<Rightarrow> string" where
  "example_fmt2 x =
     (let q = \<bar>x\<bar> * 100;
          f = nat \<lfloor>q\<rfloor>;
          r = q - of_nat f;
          h = (if r < 1 / 2 then f else if 1 / 2 < r then f + 1
               else if even f then f else f + 1)
      in (if x < 0 then [CHR ''-''] else []) @ str_of_nat (h div 100) @ [CHR ''.'']
         @ [''0123456789'' ! (h div 10 mod 10), ''0123456789'' ! (h mod 10)])"

fun frac_digits :: "nat \<Rightarrow> rat \<Rightarrow> string" where
  "frac_digits 0 r = []"
| "frac_digits (Suc n) r =
     (if r = 0 then []
      else (''0123456789'' ! nat \<lfloor>r * 10\<rfloor>) # frac_digits n (r * 10 - of_int \<lfloor>r * 10\<rfloor>))"

definition example_float_str :: "rat \<Rightarrow> string" where
  "example_float_str x =
     (let a = \<bar>x\<bar>; r = a - of_int \<lfloor>a\<rfloor>
      in (if x < 0 then [CHR ''-''] else []) @ str_of_nat (nat \<lfloor>a\<rfloor>) @ [CHR ''.'']
         @ (if r = 0 then [CHR ''0''] else frac_digits 17 r))"

fun join :: "string \<Rightarrow> string list \<Rightarrow> string" where
  "join sep [] = []"
| "join sep [x] = x"
| "join sep (x # xs) = x @ sep @ join sep xs"

primrec example_repr :: "rat json \<Rightarrow> string" where
  "example_repr JNull = ''None''"
| "example_repr (JBool b) = (if b then ''True'' else ''False'')"
| "example_repr (JInt n) = str_of_int n"
| "example_repr (JFloat x) = example_float_str x"
| "example_repr (JStr s) = [CHR 0x27] @ s @ [CHR 0x27]"
| "example_repr (JArr xs) = ''['' @ join '', '' (map example_repr xs) @ '']''"
| "example_repr (JObj kvs) =
     ''{'' @ join '', '' (map (\<lambda>kv. [CHR 0x27] @ fst kv @ [CHR 0x27] @ '': '' @ snd kv)
                              (map (map_prod id example_repr) kvs)) @ ''}''"

fun example_wrap :: "nat \<Rightarrow> string \<Rightarrow> string list" where
  "example_wrap fuel [] = []"
| "example_wrap 0 text = []"
| "example_wrap (Suc fuel) text = take 100 text # example_wrap fuel (drop 100 text)"

definition example_runtime :: "rat runtime" where
  "example_runtime =
     \<lparr>float_of_str = example_float_of_str,
      float_of_int = (\<lambda>n. Some (of_int n)),
      float_is_zero = (\<lambda>x. x = 0),
      float_sum = sum_list,
      float_div = (\<lambda>x n. x / of_nat n),
      float_fmt2 = example_fmt2,
      float_str = example_float_str,
      int_ge_float = (\<lambda>n x. x \<le> of_int n),
      container_str = example_repr,
      wrap = (\<lambda>text. example_wrap (length text) text),
      int_max_str_digits = 4300\<rparr>"

section \<open>Vocabulary of the statements\<close>

text \<open>The key of a record whose key can be computed.\<close>

definition key_of :: "'f runtime \<Rightarrow> 'f json \<Rightarrow> int list" where
  "key_of F item = (case identifier_key F item of Inr k \<Rightarrow> k | Inl e \<Rightarrow> [])"

text \<open>The expression \<^verbatim>\<open>(item.get(outer) or {}).get(inner, d)\<close>.\<close>

definition nested_get ::
  "'f runtime \<Rightarrow> 'f json \<Rightarrow> string \<Rightarrow> string \<Rightarrow> 'f json \<Rightarrow> py_error + 'f json" where
  "nested_get F item outer inner d =
     after (py_get item outer JNull) (\<lambda>c. py_get (py_or F c (JObj [])) inner d)"

text \<open>A record that has an identifier and nothing else.\<close>

definition identified :: "string \<Rightarrow> 'f json" where
  "identified s = JObj [(''control'', JObj [(''identifier'', JStr s)])]"

text \<open>
  Servers for the examples. The first has three pages of one record each and says so on
  each of them; asked for any other page it fails. The second announces five pages on its
  first page and two on its second. The third fails on its second page. The fourth
  answers its second page with status 300 and a body that is a page like any other.
\<close>

definition page_body :: "'f json list \<Rightarrow> int \<Rightarrow> 'f json" where
  "page_body items n = JObj [(''content'', JArr items), (''totalPages'', JInt n)]"

definition three_pages :: "request \<Rightarrow> rat response" where
  "three_pages r =
     (if url_page r < 3
      then Response 200 (Some (page_body [identified (str_of_nat (url_page r))] 3))
      else Response 500 None)"

definition shrinking_pages :: "request \<Rightarrow> rat response" where
  "shrinking_pages r =
     Response 200 (Some (page_body [identified (str_of_nat (url_page r))]
                           (if url_page r = 0 then 5 else 2)))"

definition failing_pages :: "request \<Rightarrow> rat response" where
  "failing_pages r =
     (if url_page r = 0 then Response 200 (Some (page_body [identified ''1''] 3))
      else Response 503 None)"

definition status_300_pages :: "request \<Rightarrow> rat response" where
  "status_300_pages r =
     (if url_page r = 0 then Response 200 (Some (page_body [identified ''1''] 2))
      else Response 300 (Some (page_body [identified ''2''] 2)))"

text \<open>
  What \<^verbatim>\<open>generate_pdf\<close> has put on the canvas when the loop over the records starts: the
  title and the summary line, each after its font, then the font of the body.
\<close>

definition header_ops :: "'f runtime \<Rightarrow> 'f json \<Rightarrow> 'f list \<Rightarrow> canvas_op list" where
  "header_ops F company values =
     [SetFont ''Helvetica-Bold'' 14,
      DrawString x_margin (height - y_margin)
        (''OneTrust Controls Summary - '' @ py_str F company),
      SetFont ''Helvetica-Bold'' 12,
      DrawString x_margin (height - y_margin - 20) (avg_text F values),
      SetFont ''Helvetica'' 10]"

text \<open>The texts drawn on a canvas, in order, and the test that a call draws above the bottom margin.\<close>

fun drawn_text :: "canvas_op \<Rightarrow> string list" where
  "drawn_text (DrawString x y text) = [text]"
| "drawn_text _ = []"

definition drawn_lines :: "canvas_op list \<Rightarrow> string list" where
  "drawn_lines ops = concat (map drawn_text ops)"

fun above_margin :: "canvas_op \<Rightarrow> bool" where
  "above_margin (DrawString x y text) = (y_margin < y)"
| "above_margin _ = True"

text \<open>
  The six logical lines of the block of a record, from the five values that the loop reads
  from it.
\<close>

definition body_block ::
  "'f runtime \<Rightarrow> 'f json \<Rightarrow> 'f json \<Rightarrow> 'f json \<Rightarrow> 'f json \<Rightarrow> 'f json \<Rightarrow> string list" where
  "body_block F identifier name description raw_value effectiveness =
     [''Identifier    : '' @ py_str F identifier,
      ''Name          : '' @ py_str F name,
      ''Description   : '' @ py_str F description,
      ''Value         : '' @ (if not_applicable F raw_value then ''N/A'' else py_str F raw_value),
      ''Effectiveness : '' @ py_str F effectiveness,
      replicate 90 CHR ''-'']"

text \<open>The block of a record: the five values read as the loop reads them, then the lines.\<close>

definition block_of :: "'f runtime \<Rightarrow> 'f json \<Rightarrow> py_error + string list" where
  "block_of F item =
     after (nested_get F item ''control'' ''identifier'' (JStr ''N/A'')) (\<lambda>identifier.
     after (nested_get F item ''control'' ''name'' (JStr ''N/A'')) (\<lambda>name.
     after (nested_get F item ''control'' ''description'' (JStr ''N/A'')) (\<lambda>description.
     after (formula_value F item) (\<lambda>raw_value.
     after (nested_get F item ''effectivenessInfo'' ''name'' (JStr ''N/A'')) (\<lambda>effectiveness.
       Inr (body_block F identifier name description raw_value effectiveness))))))"

text \<open>
  Records for the examples: one with an identifier and a description, and a list of eight
  records whose first and last have a description of 250 letters, which takes three lines.
\<close>

definition described :: "string \<Rightarrow> string \<Rightarrow> 'f json" where
  "described s d = JObj [(''control'', JObj [(''identifier'', JStr s), (''description'', JStr d)])]"

definition overflow_controls :: "rat json list" where
  "overflow_controls =
     [described ''1'' (replicate 250 CHR ''a''), identified ''2'', identified ''3'',
      identified ''4'', identified ''5'', identified ''6'', identified ''7'',
      described ''8'' (replicate 250 CHR ''b'')]"

text \<open>What the canvas holds after these eight records.\<close>

definition overflow_canvas :: "canvas_op list" where
  "overflow_canvas =
     [SetFont ''Helvetica-Bold'' 14,
      DrawString 40 752 ''OneTrust Controls Summary - Unknown Company'',
      SetFont ''Helvetica-Bold'' 12,
      DrawString 40 732 ''Average Score of Applicable Controls: N/A'',
      SetFont ''Helvetica'' 10,
      DrawString 40 702 ''Identifier    : 1'',
      DrawString 40 688 ''Name          : N/A'',
      DrawString 40 674 (''Description   : '' @ replicate 84 CHR ''a''),
      DrawString 40 660 (replicate 100 CHR ''a''),
      DrawString 40 646 (replicate 66 CHR ''a''),
      DrawString 40 632 ''Value         : N/A'',
      DrawString 40 618 ''Effectiveness : N/A'',
      DrawString 40 604 (replicate 90 CHR ''-''),
      DrawString 40 590 ''Identifier    : 2'',
      DrawString 40 576 ''Name          : N/A'',
      DrawString 40 562 ''Description   : N/A'',
      DrawString 40 548 ''Value         : N/A'',
      DrawString 40 534 ''Effectiveness : N/A'',
      DrawString 40 520 (replicate 90 CHR ''-''),
      DrawString 40 506 ''Identifier    : 3'',
      DrawString 40 492 ''Name          : N/A'',
      DrawString 40 478 ''Description   : N/A'',
      DrawString 40 464 ''Value         : N/A'',
      DrawString 40 450 ''Effectiveness : N/A'',
      DrawString 40 436 (replicate 90 CHR ''-''),
      DrawString 40 422 ''Identifier    : 4'',
      DrawString 40 408 ''Name          : N/A'',
      DrawString 40 394 ''Description   : N/A'',
      DrawString 40 380 ''Value         : N/A'',
      DrawString 40 366 ''Effectiveness : N/A'',
      DrawString 40 352 (replicate 90 CHR ''-''),
      DrawString 40 338 ''Identifier    : 5'',
      DrawString 40 324 ''Name          : N/A'',
      DrawString 40 310 ''Description   : N/A'',
      DrawString 40 296 ''Value         : N/A'',
      DrawString 40 282 ''Effectiveness : N/A'',
      DrawString 40 268 (replicate 90 CHR ''-''),
      DrawString 40 254 ''Identifier    : 6'',
      DrawString 40 240 ''Name          : N/A'',
      DrawString 40 226 ''Description   : N/A'',
      DrawString 40 212 ''Value         : N/A'',
      DrawString 40 198 ''Effectiveness : N/A'',
      DrawString 40 184 (replicate 90 CHR ''-''),
      DrawString 40 170 ''Identifier    : 7'',
      DrawString 40 156 ''Name          : N/A'',
      DrawString 40 142 ''Description   : N/A'',
      DrawString 40 128 ''Value         : N/A'',
      DrawString 40 114 ''Effectiveness : N/A'',
      DrawString 40 100 (replicate 90 CHR ''-''),
      DrawString 40 86 ''Identifier    : 8'',
      DrawString 40 72 ''Name          : N/A'',
      DrawString 40 58 (''Description   : '' @ replicate 84 CHR ''b''),
      DrawString 40 44 (replicate 100 CHR ''b''),
      ShowPage,
      SetFont ''Helvetica'' 10,
      DrawString 40 752 (replicate 66 CHR ''b''),
      DrawString 40 738 ''Value         : N/A'',
      DrawString 40 724 ''Effectiveness : N/A'',
      DrawString 40 710 (replicate 90 CHR ''-''),
      Save]"

text \<open>
  The two hints of a record at the company name, read as the loop reads them, with
  \<^verbatim>\<open>None\<close> where the reading raises.
\<close>

definition org_hint :: "'f runtime \<Rightarrow> 'f json \<Rightarrow> 'f json" where
  "org_hint F item =
     (case nested_get F item ''control'' ''orgGroupName'' JNull of Inr v \<Rightarrow> v | Inl e \<Rightarrow> JNull)"

definition primary_hint :: "'f runtime \<Rightarrow> 'f json \<Rightarrow> 'f json" where
  "primary_hint F item =
     (case nested_get F item ''primaryEntity'' ''name'' JNull of Inr v \<Rightarrow> v | Inl e \<Rightarrow> JNull)"

definition has_hint :: "'f runtime \<Rightarrow> 'f json \<Rightarrow> bool" where
  "has_hint F item \<longleftrightarrow> truthy F (org_hint F item) \<or> truthy F (primary_hint F item)"

text \<open>
  The resolution of the company name as the specification words it: the first non-empty
  \<^verbatim>\<open>orgGroupName\<close> of the whole list; if there is none, the first non-empty
  \<^verbatim>\<open>primaryEntity.name\<close>; if there is none either, the placeholder.
\<close>

definition spec_company_name :: "'f runtime \<Rightarrow> 'f json list \<Rightarrow> 'f json" where
  "spec_company_name F controls =
     (case filter (\<lambda>item. truthy F (org_hint F item)) controls of
        item # _ \<Rightarrow> org_hint F item
      | [] \<Rightarrow>
          (case filter (\<lambda>item. truthy F (primary_hint F item)) controls of
             item # _ \<Rightarrow> primary_hint F item
           | [] \<Rightarrow> JStr ''Unknown Company''))"

text \<open>
  Two records for the examples: the first names its company in \<^verbatim>\<open>primaryEntity\<close>, the
  second in \<^verbatim>\<open>orgGroupName\<close>.
\<close>

definition acme_record :: "rat json" where
  "acme_record =
     JObj [(''control'', JObj [(''identifier'', JStr ''1'')]),
           (''primaryEntity'', JObj [(''name'', JStr ''Acme Corp'')])]"

definition globex_record :: "rat json" where
  "globex_record =
     JObj [(''control'', JObj [(''identifier'', JStr ''2''), (''orgGroupName'', JStr ''Globex'')])]"

text \<open>
  The score of a record, with \<^verbatim>\<open>None\<close> where reading it raises; the values that the
  specification excludes from the average, in its words; and what a score adds to the
  average: nothing when it is not applicable or when \<^verbatim>\<open>float\<close> raises.
\<close>

definition raw_score :: "'f runtime \<Rightarrow> 'f json \<Rightarrow> 'f json" where
  "raw_score F item = (case formula_value F item of Inr v \<Rightarrow> v | Inl e \<Rightarrow> JNull)"

definition spec_excluded :: "'f json \<Rightarrow> bool" where
  "spec_excluded v \<longleftrightarrow> v = JNull \<or> v = JStr ''0'' \<or> v = JInt 0"

definition parsed :: "'f runtime \<Rightarrow> 'f json \<Rightarrow> 'f list" where
  "parsed F v =
     (if not_applicable F v then []
      else (case py_float F v of Inr x \<Rightarrow> [x] | Inl e \<Rightarrow> []))"

text \<open>A record that has a score and nothing else, and the five scores of the specification.\<close>

definition scored :: "'f json \<Rightarrow> 'f json" where
  "scored v =
     JObj [(''attributes'',
            JObj [(''AttributeFormulaValue.value1_2'', JArr [JObj [(''value'', v)]])])]"

definition five_scores :: "rat json list" where
  "five_scores =
     [scored (JInt 0), scored (JStr ''0''), scored JNull, scored (JStr ''5''),
      scored (JStr ''15'')]"

section \<open>Lemmas on sequencing and on the sort\<close>

lemma after_simps [simp]: "after (Inl e) f = Inl e" "after (Inr x) f = f x"
  by (simp_all add: after_def)

lemma after_Inr_iff: "after r f = Inr y \<longleftrightarrow> (\<exists>x. r = Inr x \<and> f x = Inr y)"
  by (cases r) simp_all

lemma after_assoc: "after (after r f) g = after r (\<lambda>x. after (f x) g)"
  by (cases r) simp_all

lemma collect_keys:
  "collect (map (identifier_key F) cs) = Inr ks \<Longrightarrow>
     ks = map (key_of F) cs \<and> (\<forall>c \<in> set cs. identifier_key F c = Inr (key_of F c))"
  by (induction cs arbitrary: ks) (auto simp: key_of_def split: sum.splits)

lemma collect_keys_Inl:
  "collect (map (identifier_key F) cs) = Inl e \<Longrightarrow> \<exists>c \<in> set cs. identifier_key F c = Inl e"
  by (induction cs) (auto split: sum.splits)

lemma insort_key_pair:
  "insort_key fst (k a, a) (map (\<lambda>x. (k x, x)) ys) = map (\<lambda>x. (k x, x)) (insort_key k a ys)"
  by (induction ys) simp_all

lemma sort_key_pair:
  "sort_key fst (map (\<lambda>x. (k x, x)) xs) = map (\<lambda>x. (k x, x)) (sort_key k xs)"
  by (induction xs) (simp_all add: insort_key_pair)

lemma sort_key_zip: "map snd (sort_key fst (zip (map k xs) xs)) = sort_key k xs"
proof -
  have "zip (map k xs) xs = map (\<lambda>x. (k x, x)) xs"
    by (induction xs) simp_all
  then show ?thesis
    by (simp add: sort_key_pair comp_def)
qed

lemma py_sort_Inr:
  assumes "py_sort F cs = Inr s"
  shows "s = sort_key (key_of F) cs" and "\<forall>c \<in> set cs. identifier_key F c = Inr (key_of F c)"
proof -
  from assms obtain ks where ks: "collect (map (identifier_key F) cs) = Inr ks"
    and s: "s = map snd (sort_key fst (zip ks cs))"
    by (auto simp: py_sort_def split: sum.splits)
  from collect_keys [OF ks] show "\<forall>c \<in> set cs. identifier_key F c = Inr (key_of F c)" by simp
  from collect_keys [OF ks] s show "s = sort_key (key_of F) cs"
    by (simp add: sort_key_zip)
qed

lemma py_sort_Inl:
  "py_sort F cs = Inl e \<Longrightarrow> \<exists>c \<in> set cs. identifier_key F c = Inl e"
  by (auto simp: py_sort_def split: sum.splits dest: collect_keys_Inl)

lemma identifier_key_nested:
  "identifier_key F item =
     after (nested_get F item ''control'' ''identifier'' (JStr ''''))
       (\<lambda>v. case v of JStr s \<Rightarrow> Inr (map (segment_value F) (split_on CHR ''.'' s))
                    | _ \<Rightarrow> Inl AttributeError)"
  by (simp add: identifier_key_def nested_get_def after_assoc)

lemma identifier_key_shape:
  assumes "identifier_key F item = Inr k"
  shows "\<exists>s. nested_get F item ''control'' ''identifier'' (JStr '''') = Inr (JStr s)
        \<and> k = map (segment_value F) (split_on CHR ''.'' s)"
proof -
  from assms obtain v where v: "nested_get F item ''control'' ''identifier'' (JStr '''') = Inr v"
    and k: "(case v of JStr s \<Rightarrow> Inr (map (segment_value F) (split_on CHR ''.'' s))
                    | _ \<Rightarrow> Inl AttributeError) = Inr k"
    unfolding identifier_key_nested after_Inr_iff by blast
  from k obtain s where "v = JStr s" "k = map (segment_value F) (split_on CHR ''.'' s)"
    by (cases v) auto
  with v show ?thesis by blast
qed

lemma segment_value_examples:
  "segment_value F ''10'' = 10" "segment_value F ''x'' = 0" "segment_value F [] = 0"
  "segment_value F ''3'' = 3" "segment_value F ''2'' = 2"
  by (simp_all add: segment_value_def int_of_str_def strip_def is_space_def is_digit_def
        digit_val_def nat_of_digits_def)

lemma sort_key_idem: "sort_key k (sort_key k xs) = sort_key k xs"
  by (simp add: sort_key_id_if_sorted)

lemma str_lex: "(''3.10'' :: string) < ''3.2''" by simp
lemma key_lex: "([3,2] :: int list) < [3,10]" by simp

section \<open>The order of the records\<close>

lemma identifier_key_identified:
  "identifier_key F (identified s) = Inr (map (segment_value F) (split_on CHR ''.'' s))"
  by (simp add: identifier_key_def identified_def py_or_def)

lemma key_of_identified:
  "key_of F (identified ''3.2'') = [3, 2]" "key_of F (identified ''3.10'') = [3, 10]"
  by (simp_all add: key_of_def identifier_key_identified segment_value_examples)

lemma py_sort_example:
  "py_sort F [identified ''3.10'', identified ''3.2''] = Inr [identified ''3.2'', identified ''3.10'']"
  by (simp add: py_sort_def identifier_key_identified segment_value_examples)

text \<open>
  C4. Rendering sorts the records by the key of their identifier: the identifier is split
  at the dots and each segment counts as the integer it spells, or as 0 when it spells none
  (a word, an empty segment). The order is ascending, records with equal keys keep the order
  they came in, and the key puts "3.10" after "3.2", which the order of the strings does
  not.
\<close>

theorem sort_order:
  assumes "py_sort F controls = Inr sorted_controls"
  shows "generate_pdf F controls = (sorted_controls, render_sorted F sorted_controls)
    \<and> (\<forall>item \<in> set controls. \<exists>s.
          nested_get F item ''control'' ''identifier'' (JStr '''') = Inr (JStr s)
          \<and> key_of F item = map (segment_value F) (split_on CHR ''.'' s))
    \<and> segment_value F ''10'' = 10 \<and> segment_value F ''x'' = 0 \<and> segment_value F '''' = 0
    \<and> sorted (map (key_of F) sorted_controls)
    \<and> mset sorted_controls = mset controls
    \<and> (\<forall>k. filter (\<lambda>item. key_of F item = k) sorted_controls
            = filter (\<lambda>item. key_of F item = k) controls)
    \<and> py_sort F [identified ''3.10'', identified ''3.2'']
        = Inr [identified ''3.2'', identified ''3.10'']
    \<and> key_of F (identified ''3.2'') < key_of F (identified ''3.10'')
    \<and> ''3.10'' < ''3.2''"
proof -
  note s = py_sort_Inr [OF assms]
  have shape: "\<forall>item \<in> set controls. \<exists>s.
          nested_get F item ''control'' ''identifier'' (JStr '''') = Inr (JStr s)
          \<and> key_of F item = map (segment_value F) (split_on CHR ''.'' s)"
  proof
    fix item assume "item \<in> set controls"
    with s(2) have k: "identifier_key F item = Inr (key_of F item)" by blast
    from identifier_key_shape [OF k]
    show "\<exists>s. nested_get F item ''control'' ''identifier'' (JStr '''') = Inr (JStr s)
          \<and> key_of F item = map (segment_value F) (split_on CHR ''.'' s)" .
  qed
  have gen: "generate_pdf F controls = (sorted_controls, render_sorted F sorted_controls)"
    by (simp add: generate_pdf_def assms)
  have srt: "sorted (map (key_of F) sorted_controls)"
    by (simp add: s(1))
  have perm: "mset sorted_controls = mset controls"
    by (simp add: s(1))
  have stable: "\<forall>k. filter (\<lambda>item. key_of F item = k) sorted_controls
            = filter (\<lambda>item. key_of F item = k) controls"
    by (simp add: s(1) sort_key_stable)
  have ex: "key_of F (identified ''3.2'') < key_of F (identified ''3.10'')"
    by (simp add: key_of_identified)
  from gen shape srt perm stable ex py_sort_example [of F] segment_value_examples [of F] str_lex
  show ?thesis by blast
qed

theorem sort_order_witness:
  "py_sort example_runtime
      [identified ''3.10'', identified ''1.x'', identified ''3.2'', identified ''1'']
    = Inr [identified ''1'', identified ''1.x'', identified ''3.2'', identified ''3.10'']
   \<and> fst (generate_pdf example_runtime
      [identified ''3.10'', identified ''1.x'', identified ''3.2'', identified ''1''])
    = [identified ''1'', identified ''1.x'', identified ''3.2'', identified ''3.10'']
   \<and> sorted (map (key_of example_runtime)
        [identified ''1'', identified ''1.x'', identified ''3.2'', identified ''3.10''])"
proof -
  have h: "py_sort example_runtime
      [identified ''3.10'', identified ''1.x'', identified ''3.2'', identified ''1'']
    = Inr [identified ''1'', identified ''1.x'', identified ''3.2'', identified ''3.10'']"
    by (simp add: py_sort_def identifier_key_identified segment_value_def int_of_str_def
          strip_def is_space_def is_digit_def digit_val_def nat_of_digits_def)
  from sort_order [OF h] h show ?thesis by simp
qed

text \<open>
  C10. \<^verbatim>\<open>generate_pdf\<close> sorts the list it is given in place. Whatever the call does later,
  the caller's list holds the same records afterwards; when every key can be computed it
  is in the stable order of the keys, and when a key raises the list is as it was and the
  exception ends the call.
\<close>

theorem generate_pdf_sorts_argument:
  assumes "generate_pdf F controls = (controls', outcome)"
  shows "mset controls' = mset controls
    \<and> ((py_sort F controls = Inr controls'
         \<and> sorted (map (key_of F) controls')
         \<and> (\<forall>k. filter (\<lambda>item. key_of F item = k) controls'
                = filter (\<lambda>item. key_of F item = k) controls))
       \<or> (\<exists>e. py_sort F controls = Inl e \<and> controls' = controls \<and> outcome = Inl e))"
proof (cases "py_sort F controls")
  case (Inl e)
  with assms show ?thesis by (simp add: generate_pdf_def)
next
  case (Inr s)
  with assms have eq: "controls' = s" by (simp add: generate_pdf_def)
  note p = py_sort_Inr [OF Inr]
  have "mset s = mset controls" by (simp add: p(1))
  moreover have "sorted (map (key_of F) s)" by (simp add: p(1))
  moreover have "\<forall>k. filter (\<lambda>item. key_of F item = k) s
                = filter (\<lambda>item. key_of F item = k) controls"
    by (simp add: p(1) sort_key_stable)
  ultimately show ?thesis using Inr eq by simp
qed

theorem generate_pdf_sorts_argument_witness:
  "mset (fst (generate_pdf example_runtime [identified ''2'', identified ''1.5'', identified ''1'']))
     = mset [identified ''2'', identified ''1.5'', identified ''1'' :: rat json]
   \<and> fst (generate_pdf example_runtime [identified ''2'', identified ''1.5'', identified ''1''])
     = [identified ''1'', identified ''1.5'', identified ''2'']
   \<and> generate_pdf example_runtime [identified ''2'', JNull, identified ''1'']
     = ([identified ''2'', JNull, identified ''1''], Inl AttributeError)"
proof -
  have a: "py_sort example_runtime [identified ''2'', identified ''1.5'', identified ''1'']
     = Inr [identified ''1'', identified ''1.5'', identified ''2'']"
    by (simp add: py_sort_def identifier_key_identified segment_value_def int_of_str_def
          strip_def is_space_def is_digit_def digit_val_def nat_of_digits_def)
  have b: "py_sort example_runtime [identified ''2'', JNull, identified ''1''] = Inl AttributeError"
    by (simp add: py_sort_def identifier_key_identified)
       (simp add: identifier_key_def)
  have c: "generate_pdf example_runtime [identified ''2'', JNull, identified ''1'']
     = ([identified ''2'', JNull, identified ''1''], Inl AttributeError)"
    by (simp add: generate_pdf_def b)
  from generate_pdf_sorts_argument
         [OF surjective_pairing,
          of example_runtime "[identified ''2'', identified ''1.5'', identified ''1'']"]
       generate_pdf_sorts_argument [OF c] a c
  show ?thesis by simp
qed

section \<open>Lemmas on the fetch loop\<close>

lemma py_extend_acc:
  "py_extend controls v = (case py_extend [] v of Inl e \<Rightarrow> Inl e | Inr xs \<Rightarrow> Inr (controls @ xs))"
  by (cases v) simp_all

lemma fetch_page_acc:
  "fetch_page F server org_id page controls =
     (case fetch_page F server org_id page [] of
        Inl e \<Rightarrow> Inl e
      | Inr (items, stop) \<Rightarrow> Inr (controls @ items, stop))"
proof (cases "server (page_request org_id page)")
  case NoResponse
  then show ?thesis by (simp add: fetch_page_def)
next
  case (Response status body)
  show ?thesis
  proof (cases "raise_for_status status")
    case (Inl e)
    with Response show ?thesis by (simp add: fetch_page_def)
  next
    case passes: (Inr u)
    show ?thesis
    proof (cases body)
      case None
      with Response passes show ?thesis by (simp add: fetch_page_def)
    next
      case (Some data)
      show ?thesis
      proof (cases "py_get data ''content'' (JArr [])")
        case (Inl e)
        with Response passes Some show ?thesis by (simp add: fetch_page_def)
      next
        case (Inr content)
        show ?thesis
        proof (cases "py_extend [] content")
          case (Inl e)
          with Response passes Some Inr show ?thesis
            by (simp add: fetch_page_def py_extend_acc [of controls])
        next
          case xs: (Inr xs)
          with Response passes Some Inr show ?thesis
            by (simp add: fetch_page_def py_extend_acc [of controls] after_def
                  split: sum.splits)
        qed
      qed
    qed
  qed
qed

lemma raise_for_status_iff:
  "raise_for_status status = Inl e \<longleftrightarrow> e = HTTPError status \<and> 400 \<le> status \<and> status < 600"
  "raise_for_status status = Inr u \<longleftrightarrow> status < 400 \<or> 600 \<le> status"
  by (auto simp: raise_for_status_def)

lemma fetch_page_error_status:
  "server (page_request org_id page) = Response status body \<Longrightarrow>
     400 \<le> status \<Longrightarrow> status < 600 \<Longrightarrow>
     fetch_page F server org_id page controls = Inl (HTTPError status)"
  by (simp add: fetch_page_def raise_for_status_def)

lemma fetch_page_body:
  assumes "server (page_request org_id page) = Response status (Some data)"
    and "status < 400 \<or> 600 \<le> status"
    and "py_get data ''content'' (JArr []) = Inr (JArr items)"
    and "py_get data ''totalPages'' (JInt 1) = Inr (JInt total_pages)"
  shows "fetch_page F server org_id page [] = Inr (items, total_pages \<le> int (page + 1))"
  using assms by (auto simp: fetch_page_def raise_for_status_def)

lemma fetch_loop_error:
  "fetch_page F server org_id page [] = Inl e \<Longrightarrow>
     fetch_loop F server org_id page controls sent = Some (sent @ [page_request org_id page], Inl e)"
  by (subst fetch_loop.simps) (simp add: fetch_page_acc [of F server org_id page controls])

lemma fetch_loop_stop:
  "fetch_page F server org_id page [] = Inr (items, True) \<Longrightarrow>
     fetch_loop F server org_id page controls sent
       = Some (sent @ [page_request org_id page], Inr (controls @ items))"
  by (subst fetch_loop.simps) (simp add: fetch_page_acc [of F server org_id page controls])

lemma fetch_loop_continue:
  "fetch_page F server org_id page [] = Inr (items, False) \<Longrightarrow>
     fetch_loop F server org_id page controls sent
       = fetch_loop F server org_id (page + 1) (controls @ items)
           (sent @ [page_request org_id page])"
  by (subst fetch_loop.simps) (simp add: fetch_page_acc [of F server org_id page controls])

lemma fetch_loop_run:
  assumes "\<And>k. k < n \<Longrightarrow> fetch_page F server org_id (page + k) [] = Inr (items (page + k), False)"
  shows "fetch_loop F server org_id page controls sent
       = fetch_loop F server org_id (page + n)
           (controls @ concat (map items [page ..< page + n]))
           (sent @ map (page_request org_id) [page ..< page + n])"
  using assms
proof (induction n arbitrary: page controls sent)
  case 0
  then show ?case by simp
next
  case (Suc n)
  from Suc.prems [of 0] have first: "fetch_page F server org_id page [] = Inr (items page, False)"
    by simp
  have rest: "\<And>k. k < n \<Longrightarrow>
      fetch_page F server org_id (page + 1 + k) [] = Inr (items (page + 1 + k), False)"
    using Suc.prems [of "Suc k" for k] by simp
  show ?case
    unfolding fetch_loop_continue [OF first]
    by (subst Suc.IH [OF rest]) (simp_all add: upt_conv_Cons del: upt_Suc)
qed

lemma fetch_controls_run:
  assumes "\<And>k. k < n \<Longrightarrow> fetch_page F server org_id k [] = Inr (items k, False)"
  shows "fetch_controls F server org_id
       = fetch_loop F server org_id n (concat (map items [0 ..< n]))
           (map (page_request org_id) [0 ..< n])"
  unfolding fetch_controls_def
  using fetch_loop_run [of n F server org_id 0 items "[]" "[]"] assms by simp

section \<open>The collector\<close>

text \<open>
  C3. The collector asks for page 0, then 1, and so on, and stops after the first page
  whose own \<^verbatim>\<open>totalPages\<close> is at most the number of pages asked for so far. The requests
  sent are exactly those for the pages up to that one, and the records are the contents of
  these pages in order. A server of three pages that reports 3 on each gets three requests.
\<close>

theorem pagination_stops_at_total:
  assumes body: "\<And>k. k \<le> n \<Longrightarrow>
                   server (page_request org_id k) = Response (status k) (Some (data k))"
    and passes: "\<And>k. k \<le> n \<Longrightarrow> status k < 400 \<or> 600 \<le> status k"
    and content: "\<And>k. k \<le> n \<Longrightarrow> py_get (data k) ''content'' (JArr []) = Inr (JArr (items k))"
    and totals: "\<And>k. k \<le> n \<Longrightarrow>
                   py_get (data k) ''totalPages'' (JInt 1) = Inr (JInt (total_pages k))"
    and continue: "\<And>k. k < n \<Longrightarrow> int (k + 1) < total_pages k"
    and stop: "total_pages n \<le> int (n + 1)"
  shows "fetch_controls F server org_id
       = Some (map (page_request org_id) [0 ..< n + 1], Inr (concat (map items [0 ..< n + 1])))"
proof -
  have page: "fetch_page F server org_id k [] = Inr (items k, total_pages k \<le> int (k + 1))"
    if "k \<le> n" for k
    using body [OF that] passes [OF that] content [OF that] totals [OF that]
    by (auto simp: fetch_page_def raise_for_status_def)
  have before: "fetch_page F server org_id k [] = Inr (items k, False)" if "k < n" for k
    using page [of k] continue [OF that] that by simp
  have last: "fetch_page F server org_id n [] = Inr (items n, True)"
    using page [of n] stop by simp
  show ?thesis
    by (simp add: fetch_controls_run [of n F server org_id items, OF before]
          fetch_loop_stop [OF last])
qed

theorem pagination_stops_at_total_witness:
  "fetch_controls example_runtime three_pages ''acme''
     = Some ([page_request ''acme'' 0, page_request ''acme'' 1, page_request ''acme'' 2],
             Inr [identified ''0'', identified ''1'', identified ''2''])
   \<and> fetch_controls example_runtime shrinking_pages ''acme''
     = Some ([page_request ''acme'' 0, page_request ''acme'' 1],
             Inr [identified ''0'', identified ''1''])"
proof -
  have a: "fetch_controls example_runtime three_pages ''acme''
     = Some (map (page_request ''acme'') [0 ..< 2 + 1],
             Inr (concat (map (\<lambda>k. [identified (str_of_nat k)]) [0 ..< 2 + 1])))"
    by (rule pagination_stops_at_total
              [where data = "\<lambda>k. page_body [identified (str_of_nat k)] 3"
                 and status = "\<lambda>k. 200"
                 and total_pages = "\<lambda>k. 3"])
       (simp_all add: three_pages_def page_request_def page_body_def)
  have b: "fetch_controls example_runtime shrinking_pages ''acme''
     = Some (map (page_request ''acme'') [0 ..< 1 + 1],
             Inr (concat (map (\<lambda>k. [identified (str_of_nat k)]) [0 ..< 1 + 1])))"
    by (rule pagination_stops_at_total
              [where data = "\<lambda>k. page_body [identified (str_of_nat k)] (if k = 0 then 5 else 2)"
                 and status = "\<lambda>k. 200"
                 and total_pages = "\<lambda>k. if k = 0 then 5 else 2"])
       (simp_all add: shrinking_pages_def page_request_def page_body_def)
  have u: "[0 ..< 2 + 1] = [0, 1, 2 :: nat]" "[0 ..< 1 + 1] = [0, 1 :: nat]"
    by code_simp+
  have d: "str_of_nat 0 = [CHR 0x30]" "str_of_nat (Suc 0) = [CHR 0x31]"
    "str_of_nat 1 = [CHR 0x31]" "str_of_nat 2 = [CHR 0x32]"
    by (simp_all add: str_of_nat.simps)
  from a [unfolded u] b [unfolded u] show ?thesis
    by (simp add: d)
qed

text \<open>
  C5, as stated, fails: a status that is not a success need not be an error for
  \<^verbatim>\<open>raise_for_status\<close>. A server answers page 0 with status 200 and page 1 with status 300,
  each with a page of one record as its body. The collector raises nothing and returns the
  records of both pages.
\<close>

theorem failed_page_counterexample:
  "status_300_pages (page_request ''acme'' 1) = Response 300 (Some (page_body [identified ''2''] 2))
   \<and> fetch_controls example_runtime status_300_pages ''acme''
     = Some ([page_request ''acme'' 0, page_request ''acme'' 1],
             Inr [identified ''1'', identified ''2''])"
proof -
  have p0: "fetch_page example_runtime status_300_pages ''acme'' k []
              = Inr ([identified ''1''], False)"
    if "k < 1" for k
    using that
    by (simp add: fetch_page_def status_300_pages_def page_request_def page_body_def
          raise_for_status_def)
  have p1: "fetch_page example_runtime status_300_pages ''acme'' (Suc 0) []
              = Inr ([identified ''2''], True)"
    by (simp add: fetch_page_def status_300_pages_def page_request_def page_body_def
          raise_for_status_def)
  have r: "status_300_pages (page_request ''acme'' 1)
             = Response 300 (Some (page_body [identified ''2''] 2))"
    by (simp add: status_300_pages_def page_request_def)
  have "fetch_controls example_runtime status_300_pages ''acme''
     = Some ([page_request ''acme'' 0, page_request ''acme'' 1],
             Inr [identified ''1'', identified ''2''])"
    by (simp add: fetch_controls_run
                    [of 1 example_runtime status_300_pages "''acme''" "\<lambda>k. [identified ''1'']",
                     OF p0]
          fetch_loop_stop [OF p1])
  with r show ?thesis by simp
qed

text \<open>
  C5, amended. When the loop reaches a page to which the server answers with a status from
  400 to 599, the statuses on which \<^verbatim>\<open>raise_for_status\<close> raises, the fetch ends at once with
  the HTTP error: the request for that page is the last one sent, the records of the pages
  before are not returned, and the endpoint produces no report. A response with any other
  status is read like a success.
\<close>

theorem failed_page_aborts_fetch:
  assumes before: "\<And>k. k < n \<Longrightarrow> fetch_page F server org_id k [] = Inr (items k, False)"
    and failure: "server (page_request org_id n) = Response status body"
    and error: "400 \<le> status" "status < 600"
  shows "fetch_controls F server org_id
       = Some (map (page_request org_id) [0 ..< n + 1], Inl (HTTPError status))
    \<and> download_report F server org_id = Some (Inl (HTTPError status))"
proof -
  have err: "fetch_page F server org_id n [] = Inl (HTTPError status)"
    using failure error by (simp add: fetch_page_def raise_for_status_def)
  have "fetch_controls F server org_id
       = Some (map (page_request org_id) [0 ..< n + 1], Inl (HTTPError status))"
    by (simp add: fetch_controls_run [of n F server org_id items, OF before]
          fetch_loop_error [OF err])
  then show ?thesis
    by (simp add: download_report_def)
qed

theorem failed_page_aborts_fetch_witness:
  "fetch_page example_runtime failing_pages ''acme'' 0 [] = Inr ([identified ''1''], False)
   \<and> failing_pages (page_request ''acme'' 1) = Response 503 None
   \<and> (400 :: nat) \<le> 503 \<and> (503 :: nat) < 600
   \<and> fetch_controls example_runtime failing_pages ''acme''
     = Some ([page_request ''acme'' 0, page_request ''acme'' 1], Inl (HTTPError 503))
   \<and> download_report example_runtime failing_pages ''acme'' = Some (Inl (HTTPError 503))"
proof -
  have p0: "fetch_page example_runtime failing_pages ''acme'' k [] = Inr ([identified ''1''], False)"
    if "k < 1" for k
    using that
    by (simp add: fetch_page_def failing_pages_def page_request_def page_body_def
          raise_for_status_def)
  have p1: "failing_pages (page_request ''acme'' 1) = Response 503 None"
    by (simp add: failing_pages_def page_request_def)
  have u: "[0 ..< 1 + 1] = [0, 1 :: nat]"
    by code_simp
  from failed_page_aborts_fetch [of 1 example_runtime failing_pages "''acme''"
         "\<lambda>k. [identified ''1'']" 503 None, OF p0 p1, unfolded u] p0 [of 0] p1
  show ?thesis by simp
qed

section \<open>Lemmas on the layout\<close>

lemma draw_line_eq:
  "draw_line line st =
     (if cursor st \<le> y_margin
      then \<lparr>canvas = canvas st @ [ShowPage, SetFont ''Helvetica'' 10,
                                   DrawString x_margin (height - y_margin) line],
            cursor = height - y_margin - line_height\<rparr>
      else \<lparr>canvas = canvas st @ [DrawString x_margin (cursor st) line],
            cursor = cursor st - line_height\<rparr>)"
  by (simp add: draw_line_def Let_def setFont_def showPage_def drawString_def)

lemma draw_line_lines:
  "drawn_lines (canvas (draw_line line st)) = drawn_lines (canvas st) @ [line]"
  by (simp add: draw_line_eq drawn_lines_def)

lemma draw_line_above:
  "list_all above_margin (canvas st) \<Longrightarrow> list_all above_margin (canvas (draw_line line st))"
  by (simp add: draw_line_eq)

lemma fold_draw_line_lines:
  "drawn_lines (canvas (fold draw_line ls st)) = drawn_lines (canvas st) @ ls"
  by (induction ls arbitrary: st) (simp_all add: draw_line_lines)

lemma fold_draw_line_above:
  "list_all above_margin (canvas st) \<Longrightarrow> list_all above_margin (canvas (fold draw_line ls st))"
  by (induction ls arbitrary: st) (simp_all add: draw_line_above)

lemma draw_wrapped_lines:
  "drawn_lines (canvas (draw_wrapped F text st)) = drawn_lines (canvas st) @ wrap F text"
  by (simp add: draw_wrapped_def fold_draw_line_lines)

lemma draw_wrapped_above:
  "list_all above_margin (canvas st) \<Longrightarrow> list_all above_margin (canvas (draw_wrapped F text st))"
  by (simp add: draw_wrapped_def fold_draw_line_above)

lemma fold_draw_wrapped_lines:
  "drawn_lines (canvas (fold (draw_wrapped F) texts st))
     = drawn_lines (canvas st) @ concat (map (wrap F) texts)"
  by (induction texts arbitrary: st) (simp_all add: draw_wrapped_lines)

lemma fold_draw_wrapped_above:
  "list_all above_margin (canvas st)
     \<Longrightarrow> list_all above_margin (canvas (fold (draw_wrapped F) texts st))"
  by (induction texts arbitrary: st) (simp_all add: draw_wrapped_above)

text \<open>The body of the loop over the records, as the block it draws.\<close>

lemma if_not_swap: "(if \<not> c then a else b) = (if c then b else a)"
  by simp

lemma render_item_block:
  "render_item F item st =
     after (nested_get F item ''control'' ''identifier'' (JStr ''N/A'')) (\<lambda>identifier.
     after (nested_get F item ''control'' ''name'' (JStr ''N/A'')) (\<lambda>name.
     after (nested_get F item ''control'' ''description'' (JStr ''N/A'')) (\<lambda>description.
     after (formula_value F item) (\<lambda>raw_value.
     after (nested_get F item ''effectivenessInfo'' ''name'' (JStr ''N/A'')) (\<lambda>effectiveness.
       Inr (fold (draw_wrapped F)
              (body_block F identifier name description raw_value effectiveness) st))))))"
proof (cases "py_get item ''control'' JNull")
  case (Inl e)
  then show ?thesis by (simp add: render_item_def nested_get_def)
next
  case (Inr c)
  then show ?thesis
    by (simp add: render_item_def nested_get_def body_block_def Let_def after_assoc
          if_distrib [where f = "py_str F"] if_not_swap cong del: if_weak_cong)
qed

lemma render_item_block_of:
  "render_item F item st =
     after (block_of F item) (\<lambda>block. Inr (fold (draw_wrapped F) block st))"
  by (simp add: render_item_block block_of_def after_assoc)

lemma collect_Cons_after:
  "collect (r # rs) = after r (\<lambda>x. after (collect rs) (\<lambda>xs. Inr (x # xs)))"
  by (simp add: after_def split: sum.splits)

lemma render_items_collect:
  "render_items F items st =
     after (collect (map (block_of F) items))
       (\<lambda>blocks. Inr (fold (draw_wrapped F) (concat blocks) st))"
proof (induction items arbitrary: st)
  case Nil
  then show ?case by simp
next
  case (Cons item items)
  show ?case
  proof (cases "block_of F item")
    case (Inl e)
    then show ?thesis by (simp add: render_item_block_of)
  next
    case (Inr block)
    then show ?thesis
      by (cases "collect (map (block_of F) items)") (simp_all add: render_item_block_of Cons.IH)
  qed
qed

lemma collect_length: "collect rs = Inr xs \<Longrightarrow> length xs = length rs"
  by (induction rs arbitrary: xs) (auto split: sum.splits)

lemma collect_nth:
  "collect rs = Inr xs \<Longrightarrow> i < length rs \<Longrightarrow> rs ! i = Inr (xs ! i)"
proof (induction rs arbitrary: xs i)
  case Nil
  then show ?case by simp
next
  case (Cons r rs)
  then show ?case by (cases i) (auto split: sum.splits)
qed

lemma render_sorted_blocks:
  "render_sorted F controls =
     after (company_name F controls) (\<lambda>company.
     after (score_values F controls []) (\<lambda>values.
     after (collect (map (block_of F) controls)) (\<lambda>blocks.
       Inr (canvas (fold (draw_wrapped F) (concat blocks)
                      \<lparr>canvas = header_ops F company values,
                       cursor = height - y_margin - 20 - 30\<rparr>) @ [Save]))))"
  by (simp add: render_sorted_def header_ops_def Let_def setFont_def drawString_def
        render_items_collect after_assoc)

lemma generate_pdf_Inr:
  assumes "generate_pdf F controls = (sorted_controls, Inr pdf)"
  shows "py_sort F controls = Inr sorted_controls"
    and "\<exists>company values blocks.
          company_name F sorted_controls = Inr company
        \<and> score_values F sorted_controls [] = Inr values
        \<and> collect (map (block_of F) sorted_controls) = Inr blocks
        \<and> pdf = canvas (fold (draw_wrapped F) (concat blocks)
                          \<lparr>canvas = header_ops F company values,
                           cursor = height - y_margin - 20 - 30\<rparr>) @ [Save]"
proof -
  from assms show s: "py_sort F controls = Inr sorted_controls"
    by (auto simp: generate_pdf_def split: sum.splits)
  with assms have "render_sorted F sorted_controls = Inr pdf"
    by (simp add: generate_pdf_def)
  then show "\<exists>company values blocks.
          company_name F sorted_controls = Inr company
        \<and> score_values F sorted_controls [] = Inr values
        \<and> collect (map (block_of F) sorted_controls) = Inr blocks
        \<and> pdf = canvas (fold (draw_wrapped F) (concat blocks)
                          \<lparr>canvas = header_ops F company values,
                           cursor = height - y_margin - 20 - 30\<rparr>) @ [Save]"
    unfolding render_sorted_blocks after_Inr_iff by blast
qed

lemma generate_pdf_sorted:
  "py_sort F controls = Inr sorted_controls \<Longrightarrow>
     generate_pdf F controls = (sorted_controls, render_sorted F sorted_controls)"
  by (simp add: generate_pdf_def)

text \<open>Evaluation of the layout on the records of the examples.\<close>

lemma draw_line_state:
  "draw_line line \<lparr>canvas = c, cursor = y\<rparr> =
     (if y \<le> 40
      then \<lparr>canvas = c @ [ShowPage, SetFont ''Helvetica'' 10, DrawString 40 752 line],
            cursor = 738\<rparr>
      else \<lparr>canvas = c @ [DrawString 40 y line], cursor = y - 14\<rparr>)"
  by (simp add: draw_line_eq)

lemma example_wrap_step:
  "s \<noteq> [] \<Longrightarrow> 0 < fuel \<Longrightarrow>
     example_wrap fuel s = take 100 s # example_wrap (fuel - 1) (drop 100 s)"
  by (cases fuel; cases s) simp_all

lemma wrap_short:
  "s \<noteq> [] \<Longrightarrow> length s \<le> 100 \<Longrightarrow> wrap example_runtime s = [s]"
  by (cases s) (simp_all add: example_runtime_def)

lemma wrap_long_word:
  "wrap example_runtime (''Description   : '' @ replicate 250 c)
     = [''Description   : '' @ replicate 84 c, replicate 100 c, replicate 66 c]"
  by (simp add: example_runtime_def example_wrap_step)

lemma block_of_identified:
  "block_of F (identified s) =
     Inr [''Identifier    : '' @ s, ''Name          : N/A'', ''Description   : N/A'',
          ''Value         : N/A'', ''Effectiveness : N/A'', replicate 90 CHR ''-'']"
  by (simp add: block_of_def nested_get_def identified_def py_or_def formula_value_def
        body_block_def)

lemma block_of_described:
  "block_of F (described s d) =
     Inr [''Identifier    : '' @ s, ''Name          : N/A'', ''Description   : '' @ d,
          ''Value         : N/A'', ''Effectiveness : N/A'', replicate 90 CHR ''-'']"
  by (simp add: block_of_def nested_get_def described_def py_or_def formula_value_def
        body_block_def)

lemma score_of_identified: "score_of F (identified s) = Inr []"
  by (simp add: score_of_def formula_value_def identified_def py_or_def)

lemma score_of_described: "score_of F (described s d) = Inr []"
  by (simp add: score_of_def formula_value_def described_def py_or_def)

lemma company_name_identified:
  "company_name F (identified s # items) = company_name F items"
  by (simp add: identified_def py_or_def)

lemma company_name_described:
  "company_name F (described s d # items) = company_name F items"
  by (simp add: described_def py_or_def)

lemma identifier_key_described:
  "identifier_key F (described s d) = Inr (map (segment_value F) (split_on CHR ''.'' s))"
  by (simp add: identifier_key_def described_def py_or_def)

text \<open>Records that carry nothing but a score.\<close>

lemma not_applicable_iff:
  "not_applicable F v \<longleftrightarrow>
     v = JNull \<or> v = JStr ''0'' \<or> v = JInt 0 \<or> v = JBool False
     \<or> (\<exists>x. v = JFloat x \<and> float_is_zero F x)"
  by (cases v) auto

lemma formula_value_scored: "formula_value F (scored v) = Inr v"
  by (simp add: formula_value_def scored_def py_or_def)

lemma raw_score_scored: "raw_score F (scored v) = v"
  by (simp add: raw_score_def formula_value_scored)

lemma identifier_key_scored: "identifier_key F (scored v) = Inr [0]"
  by (simp add: identifier_key_def scored_def py_or_def segment_value_examples)

lemma block_of_scored:
  "block_of F (scored v) =
     Inr [''Identifier    : N/A'', ''Name          : N/A'', ''Description   : N/A'',
          ''Value         : '' @ (if not_applicable F v then ''N/A'' else py_str F v),
          ''Effectiveness : N/A'', replicate 90 CHR ''-'']"
  by (simp add: block_of_def nested_get_def formula_value_scored body_block_def)
     (simp add: scored_def py_or_def)

lemma company_name_scored: "company_name F (scored v # items) = company_name F items"
  by (simp add: scored_def py_or_def)

lemma example_float_5: "float_of_str example_runtime ''5'' = Some 5"
  by (simp add: example_runtime_def example_float_of_str_def strip_def is_space_def
        is_digit_def digit_val_def nat_of_digits_def)

lemma example_float_15: "float_of_str example_runtime ''15'' = Some 15"
  by (simp add: example_runtime_def example_float_of_str_def strip_def is_space_def
        is_digit_def digit_val_def nat_of_digits_def)

lemma example_float_abc: "float_of_str example_runtime ''abc'' = None"
  by (simp add: example_runtime_def example_float_of_str_def strip_def is_space_def
        is_digit_def digit_val_def nat_of_digits_def)

lemma example_fmt_10: "float_fmt2 example_runtime 10 = ''10.00''"
  by (simp add: example_runtime_def example_fmt2_def Let_def str_of_nat.simps)

lemma five_sorted: "py_sort example_runtime five_scores = Inr five_scores"
  by (simp add: py_sort_def five_scores_def identifier_key_scored)

lemma five_company: "company_name example_runtime five_scores = Inr (JStr ''Unknown Company'')"
  by (simp add: five_scores_def company_name_scored del: company_name.simps(2))

lemma five_values: "score_values example_runtime five_scores [] = Inr [5, 15]"
  by (simp add: five_scores_def score_of_def formula_value_scored example_float_5
        example_float_15)

lemma five_blocks: "\<exists>blocks. collect (map (block_of example_runtime) five_scores) = Inr blocks"
  by (simp add: five_scores_def block_of_scored)

lemma nested_get_scored:
  "nested_get F (scored v) ''control'' k (JStr ''N/A'') = Inr (JStr ''N/A'')"
  "nested_get F (scored v) ''effectivenessInfo'' k (JStr ''N/A'') = Inr (JStr ''N/A'')"
  by (simp_all add: nested_get_def scored_def py_or_def)

lemma five_generate:
  "\<exists>pdf. generate_pdf example_runtime five_scores = (five_scores, Inr pdf)"
proof -
  from five_blocks obtain blocks where
    b: "collect (map (block_of example_runtime) five_scores) = Inr blocks" by blast
  have "render_sorted example_runtime five_scores
      = Inr (canvas (fold (draw_wrapped example_runtime) (concat blocks)
                      \<lparr>canvas = header_ops example_runtime (JStr ''Unknown Company'') [5, 15],
                       cursor = height - y_margin - 20 - 30\<rparr>) @ [Save])"
    unfolding render_sorted_blocks five_company five_values b by simp
  then show ?thesis
    by (simp add: generate_pdf_sorted [OF five_sorted])
qed

lemma five_avg_text:
  "avg_text example_runtime [5, 15] = ''Average Score of Applicable Controls: 10.00''"
proof -
  have avg: "float_div example_runtime (float_sum example_runtime [5, 15]) (length [5, 15 :: rat])
      = 10"
    by (simp add: example_runtime_def)
  show ?thesis
    using avg example_fmt_10 by (simp add: avg_text_def)
qed

section \<open>The body of the report\<close>

lemma drawn_lines_append: "drawn_lines (a @ b) = drawn_lines a @ drawn_lines b"
  by (simp add: drawn_lines_def)

lemma drawn_lines_header:
  "drawn_lines (header_ops F company values)
     = [''OneTrust Controls Summary - '' @ py_str F company, avg_text F values]"
  by (simp add: drawn_lines_def header_ops_def)

lemma above_margin_header: "list_all above_margin (header_ops F company values)"
  by (simp add: header_ops_def)

lemma sorted_overflow: "py_sort example_runtime overflow_controls = Inr overflow_controls"
  by (simp add: py_sort_def overflow_controls_def identifier_key_identified
        identifier_key_described segment_value_def int_of_str_def
        strip_def is_space_def is_digit_def digit_val_def nat_of_digits_def)

lemma overflow_company:
  "company_name example_runtime overflow_controls = Inr (JStr ''Unknown Company'')"
  by (simp add: overflow_controls_def company_name_identified company_name_described
        del: company_name.simps(2))

lemma overflow_values: "score_values example_runtime overflow_controls [] = Inr []"
  by (simp add: overflow_controls_def score_of_identified score_of_described)

lemma overflow_render:
  "render_sorted example_runtime overflow_controls = Inr overflow_canvas"
  by (simp add: render_sorted_blocks overflow_company overflow_values avg_text_def
        header_ops_def)
     (simp add: overflow_controls_def block_of_identified block_of_described
        draw_wrapped_def wrap_short wrap_long_word [simplified] draw_line_state
        overflow_canvas_def)

lemma overflow_generate:
  "generate_pdf example_runtime overflow_controls = (overflow_controls, Inr overflow_canvas)"
  by (simp add: generate_pdf_sorted [OF sorted_overflow] overflow_render)

text \<open>
  C7. When rendering completes, the texts drawn are the title, the summary line and then,
  for each record in sorted order, the physical lines of its block. There are as many
  blocks as records. A block is six logical lines: Identifier, Name, Description, Value
  and Effectiveness, each with the value read from the record or with "N/A" in its place
  (for the value: when it is None, "0" or 0), then a rule of 90 dashes. Each logical line
  is drawn as the lines into which it wraps.
\<close>

theorem body_blocks:
  assumes "generate_pdf F controls = (sorted_controls, Inr pdf)"
  shows "\<exists>company values blocks.
      company_name F sorted_controls = Inr company
    \<and> score_values F sorted_controls [] = Inr values
    \<and> length blocks = length controls
    \<and> length sorted_controls = length controls
    \<and> (\<forall>i < length blocks. \<exists>identifier name description raw_value effectiveness.
          nested_get F (sorted_controls ! i) ''control'' ''identifier'' (JStr ''N/A'')
            = Inr identifier
        \<and> nested_get F (sorted_controls ! i) ''control'' ''name'' (JStr ''N/A'') = Inr name
        \<and> nested_get F (sorted_controls ! i) ''control'' ''description'' (JStr ''N/A'')
            = Inr description
        \<and> formula_value F (sorted_controls ! i) = Inr raw_value
        \<and> nested_get F (sorted_controls ! i) ''effectivenessInfo'' ''name'' (JStr ''N/A'')
            = Inr effectiveness
        \<and> blocks ! i =
            [''Identifier    : '' @ py_str F identifier,
             ''Name          : '' @ py_str F name,
             ''Description   : '' @ py_str F description,
             ''Value         : ''
               @ (if not_applicable F raw_value then ''N/A'' else py_str F raw_value),
             ''Effectiveness : '' @ py_str F effectiveness,
             replicate 90 CHR ''-''])
    \<and> drawn_lines pdf
        = (''OneTrust Controls Summary - '' @ py_str F company) # avg_text F values
          # concat (map (wrap F) (concat blocks))"
proof -
  note g = generate_pdf_Inr [OF assms]
  from g(2) obtain company vals blocks where
    c: "company_name F sorted_controls = Inr company"
    and v: "score_values F sorted_controls [] = Inr vals"
    and b: "collect (map (block_of F) sorted_controls) = Inr blocks"
    and p: "pdf = canvas (fold (draw_wrapped F) (concat blocks)
                          \<lparr>canvas = header_ops F company vals,
                           cursor = height - y_margin - 20 - 30\<rparr>) @ [Save]"
    by blast
  have ls: "length sorted_controls = length controls"
    using py_sort_Inr(1) [OF g(1)] by simp
  have lb: "length blocks = length controls"
    using collect_length [OF b] ls by simp
  have each: "\<exists>identifier name description raw_value effectiveness.
          nested_get F (sorted_controls ! i) ''control'' ''identifier'' (JStr ''N/A'')
            = Inr identifier
        \<and> nested_get F (sorted_controls ! i) ''control'' ''name'' (JStr ''N/A'') = Inr name
        \<and> nested_get F (sorted_controls ! i) ''control'' ''description'' (JStr ''N/A'')
            = Inr description
        \<and> formula_value F (sorted_controls ! i) = Inr raw_value
        \<and> nested_get F (sorted_controls ! i) ''effectivenessInfo'' ''name'' (JStr ''N/A'')
            = Inr effectiveness
        \<and> blocks ! i =
            [''Identifier    : '' @ py_str F identifier,
             ''Name          : '' @ py_str F name,
             ''Description   : '' @ py_str F description,
             ''Value         : ''
               @ (if not_applicable F raw_value then ''N/A'' else py_str F raw_value),
             ''Effectiveness : '' @ py_str F effectiveness,
             replicate 90 CHR ''-'']"
    if "i < length blocks" for i
  proof -
    from that lb ls have i: "i < length (map (block_of F) sorted_controls)" by simp
    from collect_nth [OF b i] i
    have "block_of F (sorted_controls ! i) = Inr (blocks ! i)" by simp
    then obtain ident nm descr raw eff where
      "nested_get F (sorted_controls ! i) ''control'' ''identifier'' (JStr ''N/A'')
         = Inr ident"
      "nested_get F (sorted_controls ! i) ''control'' ''name'' (JStr ''N/A'') = Inr nm"
      "nested_get F (sorted_controls ! i) ''control'' ''description'' (JStr ''N/A'')
         = Inr descr"
      "formula_value F (sorted_controls ! i) = Inr raw"
      "nested_get F (sorted_controls ! i) ''effectivenessInfo'' ''name'' (JStr ''N/A'')
         = Inr eff"
      "body_block F ident nm descr raw eff = blocks ! i"
      unfolding block_of_def after_Inr_iff sum.inject by blast
    then show ?thesis
      unfolding body_block_def by metis
  qed
  have lines: "drawn_lines pdf
        = (''OneTrust Controls Summary - '' @ py_str F company) # avg_text F vals
          # concat (map (wrap F) (concat blocks))"
    by (simp add: p drawn_lines_append fold_draw_wrapped_lines drawn_lines_header)
       (simp add: drawn_lines_def)
  from c v lb ls each lines show ?thesis by blast
qed

theorem body_blocks_witness:
  "generate_pdf example_runtime overflow_controls = (overflow_controls, Inr overflow_canvas)
   \<and> (\<exists>blocks. length blocks = 8
        \<and> blocks ! 1 =
            [''Identifier    : 2'', ''Name          : N/A'', ''Description   : N/A'',
             ''Value         : N/A'', ''Effectiveness : N/A'', replicate 90 CHR ''-'']
        \<and> drawn_lines overflow_canvas
            = ''OneTrust Controls Summary - Unknown Company''
              # ''Average Score of Applicable Controls: N/A''
              # concat (map (wrap example_runtime) (concat blocks)))
   \<and> (\<exists>pdf blocks. generate_pdf example_runtime five_scores = (five_scores, Inr pdf)
        \<and> length blocks = 5
        \<and> blocks ! 2 =
            [''Identifier    : N/A'', ''Name          : N/A'', ''Description   : N/A'',
             ''Value         : N/A'', ''Effectiveness : N/A'', replicate 90 CHR ''-'']
        \<and> blocks ! 3 =
            [''Identifier    : N/A'', ''Name          : N/A'', ''Description   : N/A'',
             ''Value         : 5'', ''Effectiveness : N/A'', replicate 90 CHR ''-'']
        \<and> drawn_lines pdf
            = ''OneTrust Controls Summary - Unknown Company''
              # ''Average Score of Applicable Controls: 10.00''
              # concat (map (wrap example_runtime) (concat blocks)))"
proof -
  have scores: "\<exists>pdf blocks. generate_pdf example_runtime five_scores = (five_scores, Inr pdf)
        \<and> length blocks = 5
        \<and> blocks ! 2 =
            [''Identifier    : N/A'', ''Name          : N/A'', ''Description   : N/A'',
             ''Value         : N/A'', ''Effectiveness : N/A'', replicate 90 CHR ''-'']
        \<and> blocks ! 3 =
            [''Identifier    : N/A'', ''Name          : N/A'', ''Description   : N/A'',
             ''Value         : 5'', ''Effectiveness : N/A'', replicate 90 CHR ''-'']
        \<and> drawn_lines pdf
            = ''OneTrust Controls Summary - Unknown Company''
              # ''Average Score of Applicable Controls: 10.00''
              # concat (map (wrap example_runtime) (concat blocks))"
  proof -
    from five_generate obtain pdf where
      g: "generate_pdf example_runtime five_scores = (five_scores, Inr pdf)" by blast
    from body_blocks [OF g] obtain company vals blocks where
      c: "company_name example_runtime five_scores = Inr company"
      and v: "score_values example_runtime five_scores [] = Inr vals"
      and l: "length blocks = length five_scores"
      and each: "\<forall>i < length blocks. \<exists>identifier name description raw_value effectiveness.
            nested_get example_runtime (five_scores ! i) ''control'' ''identifier''
              (JStr ''N/A'') = Inr identifier
          \<and> nested_get example_runtime (five_scores ! i) ''control'' ''name''
              (JStr ''N/A'') = Inr name
          \<and> nested_get example_runtime (five_scores ! i) ''control'' ''description''
              (JStr ''N/A'') = Inr description
          \<and> formula_value example_runtime (five_scores ! i) = Inr raw_value
          \<and> nested_get example_runtime (five_scores ! i) ''effectivenessInfo'' ''name''
              (JStr ''N/A'') = Inr effectiveness
          \<and> blocks ! i =
              [''Identifier    : '' @ py_str example_runtime identifier,
               ''Name          : '' @ py_str example_runtime name,
               ''Description   : '' @ py_str example_runtime description,
               ''Value         : ''
                 @ (if not_applicable example_runtime raw_value then ''N/A''
                    else py_str example_runtime raw_value),
               ''Effectiveness : '' @ py_str example_runtime effectiveness,
               replicate 90 CHR ''-'']"
      and d: "drawn_lines pdf
          = (''OneTrust Controls Summary - '' @ py_str example_runtime company)
            # avg_text example_runtime vals
            # concat (map (wrap example_runtime) (concat blocks))"
      by blast
    from c have company: "company = JStr ''Unknown Company''"
      by (simp add: five_company)
    from v have vals: "vals = [5, 15]"
      by (simp add: five_values)
    from l have l5: "length blocks = 5"
      by (simp add: five_scores_def)
    have third: "five_scores ! 2 = scored JNull" and fourth: "five_scores ! 3 = scored (JStr ''5'')"
      by (simp_all add: five_scores_def)
    from each l5 have "\<exists>identifier name description raw_value effectiveness.
            nested_get example_runtime (five_scores ! 2) ''control'' ''identifier''
              (JStr ''N/A'') = Inr identifier
          \<and> nested_get example_runtime (five_scores ! 2) ''control'' ''name''
              (JStr ''N/A'') = Inr name
          \<and> nested_get example_runtime (five_scores ! 2) ''control'' ''description''
              (JStr ''N/A'') = Inr description
          \<and> formula_value example_runtime (five_scores ! 2) = Inr raw_value
          \<and> nested_get example_runtime (five_scores ! 2) ''effectivenessInfo'' ''name''
              (JStr ''N/A'') = Inr effectiveness
          \<and> blocks ! 2 =
              [''Identifier    : '' @ py_str example_runtime identifier,
               ''Name          : '' @ py_str example_runtime name,
               ''Description   : '' @ py_str example_runtime description,
               ''Value         : ''
                 @ (if not_applicable example_runtime raw_value then ''N/A''
                    else py_str example_runtime raw_value),
               ''Effectiveness : '' @ py_str example_runtime effectiveness,
               replicate 90 CHR ''-'']"
      by simp
    then have b2: "blocks ! 2 =
              [''Identifier    : N/A'', ''Name          : N/A'', ''Description   : N/A'',
               ''Value         : N/A'', ''Effectiveness : N/A'', replicate 90 CHR ''-'']"
      unfolding third
      by (auto simp: nested_get_scored formula_value_scored)
    from each l5 have "\<exists>identifier name description raw_value effectiveness.
            nested_get example_runtime (five_scores ! 3) ''control'' ''identifier''
              (JStr ''N/A'') = Inr identifier
          \<and> nested_get example_runtime (five_scores ! 3) ''control'' ''name''
              (JStr ''N/A'') = Inr name
          \<and> nested_get example_runtime (five_scores ! 3) ''control'' ''description''
              (JStr ''N/A'') = Inr description
          \<and> formula_value example_runtime (five_scores ! 3) = Inr raw_value
          \<and> nested_get example_runtime (five_scores ! 3) ''effectivenessInfo'' ''name''
              (JStr ''N/A'') = Inr effectiveness
          \<and> blocks ! 3 =
              [''Identifier    : '' @ py_str example_runtime identifier,
               ''Name          : '' @ py_str example_runtime name,
               ''Description   : '' @ py_str example_runtime description,
               ''Value         : ''
                 @ (if not_applicable example_runtime raw_value then ''N/A''
                    else py_str example_runtime raw_value),
               ''Effectiveness : '' @ py_str example_runtime effectiveness,
               replicate 90 CHR ''-'']"
      by simp
    then have b3: "blocks ! 3 =
              [''Identifier    : N/A'', ''Name          : N/A'', ''Description   : N/A'',
               ''Value         : 5'', ''Effectiveness : N/A'', replicate 90 CHR ''-'']"
      unfolding fourth
      by (auto simp: nested_get_scored formula_value_scored)
    from d company vals have "drawn_lines pdf
              = ''OneTrust Controls Summary - Unknown Company''
                # ''Average Score of Applicable Controls: 10.00''
                # concat (map (wrap example_runtime) (concat blocks))"
      by (simp add: five_avg_text)
    with g l5 b2 b3 show ?thesis by blast
  qed
  from body_blocks [OF overflow_generate] obtain company vals blocks where
    c: "company_name example_runtime overflow_controls = Inr company"
    and v: "score_values example_runtime overflow_controls [] = Inr vals"
    and l: "length blocks = length overflow_controls"
    and each: "\<forall>i < length blocks. \<exists>identifier name description raw_value effectiveness.
          nested_get example_runtime (overflow_controls ! i) ''control'' ''identifier''
            (JStr ''N/A'') = Inr identifier
        \<and> nested_get example_runtime (overflow_controls ! i) ''control'' ''name''
            (JStr ''N/A'') = Inr name
        \<and> nested_get example_runtime (overflow_controls ! i) ''control'' ''description''
            (JStr ''N/A'') = Inr description
        \<and> formula_value example_runtime (overflow_controls ! i) = Inr raw_value
        \<and> nested_get example_runtime (overflow_controls ! i) ''effectivenessInfo'' ''name''
            (JStr ''N/A'') = Inr effectiveness
        \<and> blocks ! i =
            [''Identifier    : '' @ py_str example_runtime identifier,
             ''Name          : '' @ py_str example_runtime name,
             ''Description   : '' @ py_str example_runtime description,
             ''Value         : ''
               @ (if not_applicable example_runtime raw_value then ''N/A''
                  else py_str example_runtime raw_value),
             ''Effectiveness : '' @ py_str example_runtime effectiveness,
             replicate 90 CHR ''-'']"
    and d: "drawn_lines overflow_canvas
        = (''OneTrust Controls Summary - '' @ py_str example_runtime company)
          # avg_text example_runtime vals
          # concat (map (wrap example_runtime) (concat blocks))"
    by blast
  from c have company: "company = JStr ''Unknown Company''"
    by (simp add: overflow_company)
  from v have vals: "vals = []"
    by (simp add: overflow_values)
  from l have l8: "length blocks = 8"
    by (simp add: overflow_controls_def)
  have second: "overflow_controls ! 1 = (identified ''2'' :: rat json)"
    by (simp add: overflow_controls_def)
  from each l8 have "\<exists>identifier name description raw_value effectiveness.
          nested_get example_runtime (overflow_controls ! 1) ''control'' ''identifier''
            (JStr ''N/A'') = Inr identifier
        \<and> nested_get example_runtime (overflow_controls ! 1) ''control'' ''name''
            (JStr ''N/A'') = Inr name
        \<and> nested_get example_runtime (overflow_controls ! 1) ''control'' ''description''
            (JStr ''N/A'') = Inr description
        \<and> formula_value example_runtime (overflow_controls ! 1) = Inr raw_value
        \<and> nested_get example_runtime (overflow_controls ! 1) ''effectivenessInfo'' ''name''
            (JStr ''N/A'') = Inr effectiveness
        \<and> blocks ! 1 =
            [''Identifier    : '' @ py_str example_runtime identifier,
             ''Name          : '' @ py_str example_runtime name,
             ''Description   : '' @ py_str example_runtime description,
             ''Value         : ''
               @ (if not_applicable example_runtime raw_value then ''N/A''
                  else py_str example_runtime raw_value),
             ''Effectiveness : '' @ py_str example_runtime effectiveness,
             replicate 90 CHR ''-'']"
    by simp
  then have b1: "blocks ! 1 =
            [''Identifier    : 2'', ''Name          : N/A'', ''Description   : N/A'',
             ''Value         : N/A'', ''Effectiveness : N/A'', replicate 90 CHR ''-'']"
    unfolding second
    by (auto simp: nested_get_def identified_def py_or_def formula_value_def)
  from d company vals have "drawn_lines overflow_canvas
            = ''OneTrust Controls Summary - Unknown Company''
              # ''Average Score of Applicable Controls: N/A''
              # concat (map (wrap example_runtime) (concat blocks))"
    by (simp add: avg_text_def)
  with l8 b1 overflow_generate have "\<exists>blocks. length blocks = 8
        \<and> blocks ! 1 =
            [''Identifier    : 2'', ''Name          : N/A'', ''Description   : N/A'',
             ''Value         : N/A'', ''Effectiveness : N/A'', replicate 90 CHR ''-'']
        \<and> drawn_lines overflow_canvas
            = ''OneTrust Controls Summary - Unknown Company''
              # ''Average Score of Applicable Controls: N/A''
              # concat (map (wrap example_runtime) (concat blocks))"
    by blast
  with overflow_generate scores show ?thesis by blast
qed

text \<open>
  C8. Before each physical line the cursor is tested against the bottom margin: at or below
  it, the page is finished, a new one started with the body font, and the line drawn at the
  top margin. A logical line that wraps into several lines when one line of room is left
  has its first line on the page and the others on the next one, from the top margin down.
  Every line of the rendered report is drawn strictly above the bottom margin.
\<close>

theorem page_break_per_line:
  "draw_line line st =
     (if cursor st \<le> y_margin
      then \<lparr>canvas = canvas st @ [ShowPage, SetFont ''Helvetica'' 10,
                                   DrawString x_margin (height - y_margin) line],
            cursor = height - y_margin - line_height\<rparr>
      else \<lparr>canvas = canvas st @ [DrawString x_margin (cursor st) line],
            cursor = cursor st - line_height\<rparr>)
   \<and> draw_wrapped F logical st = fold draw_line (wrap F logical) st
   \<and> (wrap F logical = first # second # others
        \<and> y_margin < cursor st \<and> cursor st - line_height \<le> y_margin
      \<longrightarrow> draw_wrapped F logical st
          = fold draw_line others
              \<lparr>canvas = canvas st @ [DrawString x_margin (cursor st) first, ShowPage,
                                     SetFont ''Helvetica'' 10,
                                     DrawString x_margin (height - y_margin) second],
               cursor = height - y_margin - line_height\<rparr>)
   \<and> (generate_pdf F controls = (sorted_controls, Inr pdf) \<longrightarrow> list_all above_margin pdf)"
proof -
  have span: "draw_wrapped F logical st
          = fold draw_line others
              \<lparr>canvas = canvas st @ [DrawString x_margin (cursor st) first, ShowPage,
                                     SetFont ''Helvetica'' 10,
                                     DrawString x_margin (height - y_margin) second],
               cursor = height - y_margin - line_height\<rparr>"
    if "wrap F logical = first # second # others" "y_margin < cursor st"
      "cursor st - line_height \<le> y_margin"
    using that by (simp add: draw_wrapped_def draw_line_eq)
  have above: "list_all above_margin pdf"
    if g: "generate_pdf F controls = (sorted_controls, Inr pdf)"
  proof -
    from generate_pdf_Inr(2) [OF g] obtain company vals blocks where
      p: "pdf = canvas (fold (draw_wrapped F) (concat blocks)
                          \<lparr>canvas = header_ops F company vals,
                           cursor = height - y_margin - 20 - 30\<rparr>) @ [Save]"
      by blast
    have "list_all above_margin (canvas (fold (draw_wrapped F) (concat blocks)
                          \<lparr>canvas = header_ops F company vals,
                           cursor = height - y_margin - 20 - 30\<rparr>))"
      by (rule fold_draw_wrapped_above) (simp add: above_margin_header)
    with p show ?thesis by simp
  qed
  from span above show ?thesis
    by (simp add: draw_line_eq draw_wrapped_def)
qed

theorem page_break_per_line_witness:
  "wrap example_runtime (''Description   : '' @ replicate 250 CHR ''b'')
     = [''Description   : '' @ replicate 84 CHR ''b'', replicate 100 CHR ''b'',
        replicate 66 CHR ''b'']
   \<and> draw_wrapped example_runtime (''Description   : '' @ replicate 250 CHR ''b'')
        \<lparr>canvas = [], cursor = 44\<rparr>
     = \<lparr>canvas = [DrawString 40 44 (''Description   : '' @ replicate 84 CHR ''b''),
                  ShowPage, SetFont ''Helvetica'' 10,
                  DrawString 40 752 (replicate 100 CHR ''b''),
                  DrawString 40 738 (replicate 66 CHR ''b'')],
        cursor = 724\<rparr>
   \<and> generate_pdf example_runtime overflow_controls = (overflow_controls, Inr overflow_canvas)
   \<and> list_all above_margin overflow_canvas
   \<and> take 5 (drop 51 overflow_canvas)
     = [DrawString 40 58 (''Description   : '' @ replicate 84 CHR ''b''),
        DrawString 40 44 (replicate 100 CHR ''b''),
        ShowPage, SetFont ''Helvetica'' 10,
        DrawString 40 752 (replicate 66 CHR ''b'')]"
proof -
  note t = page_break_per_line
    [of "[]" "\<lparr>canvas = [], cursor = 44\<rparr>" example_runtime
        "''Description   : '' @ replicate 250 CHR ''b''"
        "''Description   : '' @ replicate 84 CHR ''b''" "replicate 100 CHR ''b''"
        "[replicate 66 CHR ''b'']" overflow_controls overflow_controls overflow_canvas]
  have w: "wrap example_runtime (''Description   : '' @ replicate 250 CHR ''b'')
     = [''Description   : '' @ replicate 84 CHR ''b'', replicate 100 CHR ''b'',
        replicate 66 CHR ''b'']"
    by (rule wrap_long_word)
  from t w have d: "draw_wrapped example_runtime (''Description   : '' @ replicate 250 CHR ''b'')
        \<lparr>canvas = [], cursor = 44\<rparr>
     = \<lparr>canvas = [DrawString 40 44 (''Description   : '' @ replicate 84 CHR ''b''),
                  ShowPage, SetFont ''Helvetica'' 10,
                  DrawString 40 752 (replicate 100 CHR ''b''),
                  DrawString 40 738 (replicate 66 CHR ''b'')],
        cursor = 724\<rparr>"
    by (simp add: draw_line_state)
  from t overflow_generate have a: "list_all above_margin overflow_canvas"
    by blast
  have k: "take 5 (drop 51 overflow_canvas)
     = [DrawString 40 58 (''Description   : '' @ replicate 84 CHR ''b''),
        DrawString 40 44 (replicate 100 CHR ''b''),
        ShowPage, SetFont ''Helvetica'' 10,
        DrawString 40 752 (replicate 66 CHR ''b'')]"
    by (simp add: overflow_canvas_def)
  from w d overflow_generate a k show ?thesis by blast
qed

section \<open>The summary\<close>

lemma company_name_step:
  "company_name F (item # items) =
     after (nested_get F item ''control'' ''orgGroupName'' JNull) (\<lambda>org.
       if truthy F org then Inr org
       else after (nested_get F item ''primaryEntity'' ''name'' JNull) (\<lambda>name.
              if truthy F name then Inr name else company_name F items))"
  by (simp add: nested_get_def after_assoc cong del: if_weak_cong)

lemma company_name_find:
  assumes "company_name F controls = Inr company"
  shows "company =
     (case find (has_hint F) controls of
        None \<Rightarrow> JStr ''Unknown Company''
      | Some item \<Rightarrow> if truthy F (org_hint F item) then org_hint F item else primary_hint F item)"
  using assms
proof (induction controls)
  case Nil
  then show ?case by simp
next
  case (Cons item items)
  from Cons.prems obtain org where
    org: "nested_get F item ''control'' ''orgGroupName'' JNull = Inr org"
    and rest: "(if truthy F org then Inr org
       else after (nested_get F item ''primaryEntity'' ''name'' JNull) (\<lambda>name.
              if truthy F name then Inr name else company_name F items)) = Inr company"
    unfolding company_name_step after_Inr_iff by blast
  have oh: "org_hint F item = org"
    by (simp add: org_hint_def org)
  show ?case
  proof (cases "truthy F org")
    case True
    with rest oh show ?thesis by (simp add: has_hint_def)
  next
    case False
    with rest obtain name where
      name: "nested_get F item ''primaryEntity'' ''name'' JNull = Inr name"
      and rest': "(if truthy F name then Inr name else company_name F items) = Inr company"
      by (auto simp: after_Inr_iff)
    have ph: "primary_hint F item = name"
      by (simp add: primary_hint_def name)
    show ?thesis
    proof (cases "truthy F name")
      case True
      with rest' oh ph False show ?thesis by (simp add: has_hint_def)
    next
      case no_name: False
      with rest' have "company_name F items = Inr company" by simp
      from Cons.IH [OF this] oh ph False no_name show ?thesis
        by (simp add: has_hint_def)
    qed
  qed
qed

lemma find_has_hint_no_org:
  assumes "\<forall>item \<in> set controls. \<not> truthy F (org_hint F item)"
  shows "(case find (has_hint F) controls of
        None \<Rightarrow> JStr ''Unknown Company''
      | Some item \<Rightarrow> if truthy F (org_hint F item) then org_hint F item else primary_hint F item)
     = spec_company_name F controls"
  using assms
proof (induction controls)
  case Nil
  then show ?case by (simp add: spec_company_name_def)
next
  case (Cons item items)
  then have no: "filter (\<lambda>item. truthy F (org_hint F item)) (item # items) = []"
    and no': "filter (\<lambda>item. truthy F (org_hint F item)) items = []"
    by (simp_all add: filter_empty_conv)
  from Cons have ih: "(case find (has_hint F) items of
        None \<Rightarrow> JStr ''Unknown Company''
      | Some item \<Rightarrow> if truthy F (org_hint F item) then org_hint F item else primary_hint F item)
     = spec_company_name F items"
    by simp
  from Cons.prems have item: "\<not> truthy F (org_hint F item)" by simp
  show ?case
  proof (cases "truthy F (primary_hint F item)")
    case True
    with item no show ?thesis
      by (simp add: spec_company_name_def has_hint_def)
  next
    case False
    with item have "\<not> has_hint F item" by (simp add: has_hint_def)
    with ih False no no' show ?thesis
      by (simp add: spec_company_name_def)
  qed
qed

lemma find_has_hint_filter:
  assumes "find (has_hint F) controls = Some item" and "truthy F (org_hint F item)"
  shows "\<exists>others. filter (\<lambda>x. truthy F (org_hint F x)) controls = item # others"
  using assms
proof (induction controls)
  case Nil
  then show ?case by simp
next
  case (Cons c cs)
  show ?case
  proof (cases "has_hint F c")
    case True
    with Cons.prems have "c = item" by simp
    with Cons.prems(2) show ?thesis by simp
  next
    case False
    with Cons.prems have f: "find (has_hint F) cs = Some item" by simp
    from False have "\<not> truthy F (org_hint F c)" by (simp add: has_hint_def)
    with Cons.IH [OF f Cons.prems(2)] show ?thesis by simp
  qed
qed

lemma find_has_hint_org_first:
  assumes "find (has_hint F) controls = Some item" and "truthy F (org_hint F item)"
  shows "spec_company_name F controls = org_hint F item"
proof -
  from find_has_hint_filter [OF assms] obtain others where
    "filter (\<lambda>x. truthy F (org_hint F x)) controls = item # others" by blast
  then show ?thesis by (simp add: spec_company_name_def)
qed

lemma acme_sorted: "py_sort example_runtime [acme_record, globex_record] = Inr [acme_record, globex_record]"
  by (simp add: py_sort_def acme_record_def globex_record_def identifier_key_def py_or_def
        segment_value_def int_of_str_def strip_def is_space_def is_digit_def digit_val_def
        nat_of_digits_def)

lemma acme_company:
  "company_name example_runtime [acme_record, globex_record] = Inr (JStr ''Acme Corp'')"
  by (simp add: acme_record_def globex_record_def py_or_def)

text \<open>
  C1, as stated, fails: of two records in sorted order of which the first names the company
  in \<^verbatim>\<open>primaryEntity.name\<close> only and the second in \<^verbatim>\<open>orgGroupName\<close>, the scan takes the name
  of the first, where the specification takes the \<^verbatim>\<open>orgGroupName\<close> of the second.
\<close>

theorem company_name_counterexample:
  "fst (generate_pdf example_runtime [acme_record, globex_record]) = [acme_record, globex_record]
   \<and> company_name example_runtime [acme_record, globex_record] = Inr (JStr ''Acme Corp'')
   \<and> hd (drawn_lines (projr (snd (generate_pdf example_runtime [acme_record, globex_record]))))
       = ''OneTrust Controls Summary - Acme Corp''
   \<and> org_hint example_runtime globex_record = JStr ''Globex''
   \<and> spec_company_name example_runtime [acme_record, globex_record] = JStr ''Globex''"
proof -
  have blocks: "\<exists>bs. collect (map (block_of example_runtime) [acme_record, globex_record]) = Inr bs"
    by (simp add: block_of_def nested_get_def acme_record_def globex_record_def py_or_def
          formula_value_def)
  have vals: "\<exists>vs. score_values example_runtime [acme_record, globex_record] [] = Inr vs"
    by (simp add: score_of_def formula_value_def acme_record_def globex_record_def py_or_def)
  from blocks obtain bs where
    bs: "collect (map (block_of example_runtime) [acme_record, globex_record]) = Inr bs"
    by blast
  from vals obtain vs where
    vs: "score_values example_runtime [acme_record, globex_record] [] = Inr vs"
    by blast
  have r: "render_sorted example_runtime [acme_record, globex_record]
      = Inr (canvas (fold (draw_wrapped example_runtime) (concat bs)
                      \<lparr>canvas = header_ops example_runtime (JStr ''Acme Corp'') vs,
                       cursor = height - y_margin - 20 - 30\<rparr>) @ [Save])"
    unfolding render_sorted_blocks acme_company vs bs by simp
  have title:
    "hd (drawn_lines (projr (snd (generate_pdf example_runtime [acme_record, globex_record]))))
       = ''OneTrust Controls Summary - Acme Corp''"
    by (simp add: generate_pdf_sorted [OF acme_sorted] r
          drawn_lines_append fold_draw_wrapped_lines drawn_lines_header)
  have org: "org_hint example_runtime globex_record = JStr ''Globex''"
    by (simp add: org_hint_def nested_get_def globex_record_def py_or_def)
  have spec: "spec_company_name example_runtime [acme_record, globex_record] = JStr ''Globex''"
    by (simp add: spec_company_name_def org_hint_def nested_get_def acme_record_def
          globex_record_def py_or_def)
  from title org spec acme_company show ?thesis
    by (simp add: generate_pdf_sorted [OF acme_sorted])
qed

text \<open>
  C1, amended. The records are scanned in sorted order and the company name is taken from
  the first record that has either hint: its \<^verbatim>\<open>orgGroupName\<close> when that is non-empty,
  otherwise its \<^verbatim>\<open>primaryEntity.name\<close>. When no record has either, the name is "Unknown
  Company". The name is the title's. It is the name the specification gives whenever no
  record has an \<^verbatim>\<open>orgGroupName\<close>, and whenever the first record with a hint has one.
\<close>

theorem company_name_resolution:
  assumes "generate_pdf F controls = (sorted_controls, Inr pdf)"
  shows "\<exists>company.
      company_name F sorted_controls = Inr company
    \<and> hd (drawn_lines pdf) = ''OneTrust Controls Summary - '' @ py_str F company
    \<and> company =
        (case find (has_hint F) sorted_controls of
           None \<Rightarrow> JStr ''Unknown Company''
         | Some item \<Rightarrow>
             if truthy F (org_hint F item) then org_hint F item else primary_hint F item)
    \<and> ((\<forall>item \<in> set sorted_controls. \<not> has_hint F item) \<longrightarrow> company = JStr ''Unknown Company'')
    \<and> ((\<forall>item \<in> set sorted_controls. \<not> truthy F (org_hint F item))
         \<longrightarrow> company = spec_company_name F sorted_controls)
    \<and> ((\<exists>item. find (has_hint F) sorted_controls = Some item \<and> truthy F (org_hint F item))
         \<longrightarrow> company = spec_company_name F sorted_controls)"
proof -
  from generate_pdf_Inr(2) [OF assms] obtain company vals blocks where
    c: "company_name F sorted_controls = Inr company"
    and p: "pdf = canvas (fold (draw_wrapped F) (concat blocks)
                          \<lparr>canvas = header_ops F company vals,
                           cursor = height - y_margin - 20 - 30\<rparr>) @ [Save]"
    by blast
  have title: "hd (drawn_lines pdf) = ''OneTrust Controls Summary - '' @ py_str F company"
    by (simp add: p drawn_lines_append fold_draw_wrapped_lines drawn_lines_header)
  note f = company_name_find [OF c]
  have none: "company = JStr ''Unknown Company''"
    if "\<forall>item \<in> set sorted_controls. \<not> has_hint F item"
  proof -
    from that have "find (has_hint F) sorted_controls = None"
      by (simp add: find_None_iff)
    with f show ?thesis by simp
  qed
  have no_org: "company = spec_company_name F sorted_controls"
    if "\<forall>item \<in> set sorted_controls. \<not> truthy F (org_hint F item)"
    using f find_has_hint_no_org [OF that] by simp
  have org_first: "company = spec_company_name F sorted_controls"
    if "\<exists>item. find (has_hint F) sorted_controls = Some item \<and> truthy F (org_hint F item)"
  proof -
    from that obtain item where i: "find (has_hint F) sorted_controls = Some item"
      and t: "truthy F (org_hint F item)" by blast
    from f i t have "company = org_hint F item" by simp
    with find_has_hint_org_first [OF i t] show ?thesis by simp
  qed
  from c title f none no_org org_first show ?thesis by blast
qed

theorem company_name_resolution_witness:
  "(\<exists>pdf. generate_pdf example_runtime [acme_record, globex_record]
            = ([acme_record, globex_record], Inr pdf)
        \<and> hd (drawn_lines pdf) = ''OneTrust Controls Summary - Acme Corp'')
   \<and> find (has_hint example_runtime) [acme_record, globex_record] = Some acme_record
   \<and> primary_hint example_runtime acme_record = JStr ''Acme Corp''
   \<and> org_hint example_runtime acme_record = JNull"
proof -
  have blocks: "\<exists>bs. collect (map (block_of example_runtime) [acme_record, globex_record]) = Inr bs"
    by (simp add: block_of_def nested_get_def acme_record_def globex_record_def py_or_def
          formula_value_def)
  have vals: "\<exists>vs. score_values example_runtime [acme_record, globex_record] [] = Inr vs"
    by (simp add: score_of_def formula_value_def acme_record_def globex_record_def py_or_def)
  from blocks obtain bs where
    bs: "collect (map (block_of example_runtime) [acme_record, globex_record]) = Inr bs"
    by blast
  from vals obtain vs where
    vs: "score_values example_runtime [acme_record, globex_record] [] = Inr vs"
    by blast
  have r: "render_sorted example_runtime [acme_record, globex_record]
      = Inr (canvas (fold (draw_wrapped example_runtime) (concat bs)
                      \<lparr>canvas = header_ops example_runtime (JStr ''Acme Corp'') vs,
                       cursor = height - y_margin - 20 - 30\<rparr>) @ [Save])"
    unfolding render_sorted_blocks acme_company vs bs by simp
  then obtain pdf where
    g: "generate_pdf example_runtime [acme_record, globex_record]
            = ([acme_record, globex_record], Inr pdf)"
    by (simp add: generate_pdf_sorted [OF acme_sorted])
  from company_name_resolution [OF g] obtain company where
    c: "company_name example_runtime [acme_record, globex_record] = Inr company"
    and t: "hd (drawn_lines pdf) = ''OneTrust Controls Summary - '' @ py_str example_runtime company"
    by blast
  from c [unfolded acme_company] have "company = JStr ''Acme Corp''" by simp
  with t have title: "hd (drawn_lines pdf) = ''OneTrust Controls Summary - Acme Corp''"
    by simp
  have ph: "primary_hint example_runtime acme_record = JStr ''Acme Corp''"
    by (simp add: primary_hint_def nested_get_def acme_record_def py_or_def)
  have oh: "org_hint example_runtime acme_record = JNull"
    by (simp add: org_hint_def nested_get_def acme_record_def py_or_def)
  have f: "find (has_hint example_runtime) [acme_record, globex_record] = Some acme_record"
    by (simp add: has_hint_def ph oh)
  from g title f ph oh show ?thesis by blast
qed

section \<open>The average\<close>

lemma py_float_ValueError:
  "py_float F v = Inl ValueError \<longleftrightarrow> (\<exists>s. v = JStr s \<and> float_of_str F s = None)"
  by (cases v) (auto split: option.splits)

lemma score_of_parsed:
  assumes "score_of F item = Inr xs"
  shows "xs = parsed F (raw_score F item)"
    and "parsed F (raw_score F item) = [] \<longleftrightarrow>
           not_applicable F (raw_score F item)
           \<or> (\<exists>s. raw_score F item = JStr s \<and> float_of_str F s = None)"
proof -
  from assms obtain v where v: "formula_value F item = Inr v"
    and r: "(if \<not> not_applicable F v
             then (case py_float F v of
                     Inr x \<Rightarrow> Inr [x]
                   | Inl ValueError \<Rightarrow> Inr []
                   | Inl e \<Rightarrow> Inl e)
             else Inr []) = Inr xs"
    unfolding score_of_def after_Inr_iff by blast
  have raw: "raw_score F item = v"
    by (simp add: raw_score_def v)
  show "xs = parsed F (raw_score F item)"
  proof (cases "not_applicable F v")
    case True
    with r raw show ?thesis by (simp add: parsed_def)
  next
    case False
    with r raw show ?thesis
      by (cases "py_float F v") (auto simp: parsed_def split: py_error.splits)
  qed
  show "parsed F (raw_score F item) = [] \<longleftrightarrow>
           not_applicable F (raw_score F item)
           \<or> (\<exists>s. raw_score F item = JStr s \<and> float_of_str F s = None)"
  proof (cases "not_applicable F v")
    case True
    with raw show ?thesis by (simp add: parsed_def)
  next
    case False
    show ?thesis
    proof (cases "py_float F v")
      case (Inl e)
      with r False have "e = ValueError"
        by (cases e) simp_all
      with Inl have ve: "py_float F v = Inl ValueError" by simp
      then have "\<exists>s. v = JStr s \<and> float_of_str F s = None"
        by (simp add: py_float_ValueError)
      with ve False raw show ?thesis
        by (simp add: parsed_def)
    next
      case (Inr x)
      then have "py_float F v \<noteq> Inl ValueError" by simp
      then have "\<not> (\<exists>s. v = JStr s \<and> float_of_str F s = None)"
        by (simp add: py_float_ValueError)
      with Inr False raw show ?thesis
        by (simp add: parsed_def)
    qed
  qed
qed

lemma score_values_parsed:
  assumes "score_values F items acc = Inr vals"
  shows "vals = acc @ concat (map (\<lambda>item. parsed F (raw_score F item)) items)
       \<and> (\<forall>item \<in> set items.
            parsed F (raw_score F item) = [] \<longleftrightarrow>
              not_applicable F (raw_score F item)
              \<or> (\<exists>s. raw_score F item = JStr s \<and> float_of_str F s = None))"
  using assms
proof (induction items arbitrary: acc)
  case Nil
  then show ?case by simp
next
  case (Cons item items)
  from Cons.prems obtain xs where one: "score_of F item = Inr xs"
    and rest: "score_values F items (acc @ xs) = Inr vals"
    by (auto simp: after_Inr_iff)
  from score_of_parsed [OF one] Cons.IH [OF rest] show ?case
    by simp
qed

text \<open>
  C2, as stated, fails: a score that is the string "abc" is none of None, "0" and 0, and it
  is left out of the values that are averaged.
\<close>

theorem average_score_counterexample:
  "formula_value example_runtime (scored (JStr ''abc'')) = Inr (JStr ''abc'')
   \<and> \<not> spec_excluded (JStr ''abc'' :: rat json)
   \<and> score_of example_runtime (scored (JStr ''abc'')) = Inr []
   \<and> score_values example_runtime [scored (JStr ''abc''), scored (JStr ''5'')] [] = Inr [5]"
  by (simp add: formula_value_scored spec_excluded_def score_of_def example_float_abc
        example_float_5)

text \<open>
  C2, amended. When rendering completes, the values averaged are, in sorted order, the
  floats of the scores that are applicable and that \<^verbatim>\<open>float\<close> accepts. A score adds nothing
  exactly when it is None, "0" or equal to 0 (0, 0.0, False), or a string that \<^verbatim>\<open>float\<close>
  refuses. The summary line shows the sum of the values divided by their number, in the
  format of two decimals, or "N/A" when there is no value.
\<close>

theorem average_score:
  assumes "generate_pdf F controls = (sorted_controls, Inr pdf)"
  shows "\<exists>vals.
      score_values F sorted_controls [] = Inr vals
    \<and> vals = concat (map (\<lambda>item. parsed F (raw_score F item)) sorted_controls)
    \<and> (\<forall>item \<in> set sorted_controls.
          parsed F (raw_score F item) = [] \<longleftrightarrow>
            not_applicable F (raw_score F item)
            \<or> (\<exists>s. raw_score F item = JStr s \<and> float_of_str F s = None))
    \<and> (\<forall>item \<in> set sorted_controls.
          parsed F (raw_score F item) = []
          \<or> (\<exists>x. py_float F (raw_score F item) = Inr x \<and> parsed F (raw_score F item) = [x]))
    \<and> (\<forall>v. not_applicable F v \<longleftrightarrow>
          v = JNull \<or> v = JStr ''0'' \<or> v = JInt 0 \<or> v = JBool False
          \<or> (\<exists>x. v = JFloat x \<and> float_is_zero F x))
    \<and> drawn_lines pdf ! 1 =
        (if vals = [] then ''Average Score of Applicable Controls: N/A''
         else ''Average Score of Applicable Controls: ''
              @ float_fmt2 F (float_div F (float_sum F vals) (length vals)))"
proof -
  from generate_pdf_Inr(2) [OF assms] obtain company vals blocks where
    v: "score_values F sorted_controls [] = Inr vals"
    and p: "pdf = canvas (fold (draw_wrapped F) (concat blocks)
                          \<lparr>canvas = header_ops F company vals,
                           cursor = height - y_margin - 20 - 30\<rparr>) @ [Save]"
    by blast
  from score_values_parsed [OF v]
  have vals: "vals = concat (map (\<lambda>item. parsed F (raw_score F item)) sorted_controls)"
    and out: "\<forall>item \<in> set sorted_controls.
          parsed F (raw_score F item) = [] \<longleftrightarrow>
            not_applicable F (raw_score F item)
            \<or> (\<exists>s. raw_score F item = JStr s \<and> float_of_str F s = None)"
    by simp_all
  have one: "parsed F w = [] \<or> (\<exists>x. py_float F w = Inr x \<and> parsed F w = [x])" for w
    by (cases "py_float F w") (simp_all add: parsed_def)
  have line: "drawn_lines pdf ! 1 =
        (if vals = [] then ''Average Score of Applicable Controls: N/A''
         else ''Average Score of Applicable Controls: ''
              @ float_fmt2 F (float_div F (float_sum F vals) (length vals)))"
    by (simp add: p drawn_lines_append fold_draw_wrapped_lines drawn_lines_header avg_text_def)
  from v vals out one line not_applicable_iff [of F] show ?thesis
    by blast
qed

theorem average_score_witness:
  "(\<exists>pdf. generate_pdf example_runtime five_scores = (five_scores, Inr pdf)
        \<and> drawn_lines pdf ! 1 = ''Average Score of Applicable Controls: 10.00'')
   \<and> score_values example_runtime five_scores [] = Inr [5, 15]
   \<and> map (\<lambda>item. parsed example_runtime (raw_score example_runtime item)) five_scores
       = [[], [], [], [5], [15]]"
proof -
  from five_blocks obtain blocks where
    b: "collect (map (block_of example_runtime) five_scores) = Inr blocks" by blast
  have r: "render_sorted example_runtime five_scores
      = Inr (canvas (fold (draw_wrapped example_runtime) (concat blocks)
                      \<lparr>canvas = header_ops example_runtime (JStr ''Unknown Company'') [5, 15],
                       cursor = height - y_margin - 20 - 30\<rparr>) @ [Save])"
    unfolding render_sorted_blocks five_company five_values b by simp
  then obtain pdf where
    g: "generate_pdf example_runtime five_scores = (five_scores, Inr pdf)"
    by (simp add: generate_pdf_sorted [OF five_sorted])
  from average_score [OF g] obtain vals where
    v: "score_values example_runtime five_scores [] = Inr vals"
    and l: "drawn_lines pdf ! 1 =
        (if vals = [] then ''Average Score of Applicable Controls: N/A''
         else ''Average Score of Applicable Controls: ''
              @ float_fmt2 example_runtime
                  (float_div example_runtime (float_sum example_runtime vals) (length vals)))"
    by blast
  from v [unfolded five_values] have vals: "vals = [5, 15]" by simp
  have avg: "float_div example_runtime (float_sum example_runtime [5, 15]) (length [5, 15 :: rat])
      = 10"
    by (simp add: example_runtime_def)
  from l have line: "drawn_lines pdf ! 1 = ''Average Score of Applicable Controls: 10.00''"
    unfolding vals avg example_fmt_10 by simp
  have each: "map (\<lambda>item. parsed example_runtime (raw_score example_runtime item)) five_scores
       = [[], [], [], [5], [15]]"
    by (simp add: five_scores_def raw_score_scored parsed_def example_float_5 example_float_15)
  from g line five_values each show ?thesis by blast
qed

text \<open>
  C6. The loop catches \<^verbatim>\<open>ValueError\<close> only. A score that is a list makes \<^verbatim>\<open>float\<close> raise
  \<^verbatim>\<open>TypeError\<close>, which ends the rendering; so does, with \<^verbatim>\<open>AttributeError\<close>, an identifier
  that is null, on which the sort key calls \<^verbatim>\<open>split\<close>.
\<close>

theorem bad_score_aborts_rendering:
  "generate_pdf F [scored (JArr [JInt 1])] = ([scored (JArr [JInt 1])], Inl TypeError)
   \<and> generate_pdf F [JObj [(''control'', JObj [(''identifier'', JNull)])]]
       = ([JObj [(''control'', JObj [(''identifier'', JNull)])]], Inl AttributeError)"
proof -
  have s: "py_sort F [scored (JArr [JInt 1])] = Inr [scored (JArr [JInt 1])]"
    by (simp add: py_sort_def identifier_key_scored)
  have c: "company_name F [scored (JArr [JInt 1])] = Inr (JStr ''Unknown Company'')"
    by (simp add: company_name_scored del: company_name.simps(2))
  have v: "score_values F [scored (JArr [JInt 1])] [] = Inl TypeError"
    by (simp add: score_of_def formula_value_scored)
  have a: "generate_pdf F [scored (JArr [JInt 1])] = ([scored (JArr [JInt 1])], Inl TypeError)"
    unfolding generate_pdf_sorted [OF s] render_sorted_blocks c v by simp
  have k: "identifier_key F (JObj [(''control'', JObj [(''identifier'', JNull)])])
      = Inl AttributeError"
    by (simp add: identifier_key_def py_or_def)
  have b: "generate_pdf F [JObj [(''control'', JObj [(''identifier'', JNull)])]]
       = ([JObj [(''control'', JObj [(''identifier'', JNull)])]], Inl AttributeError)"
    by (simp add: generate_pdf_def py_sort_def k)
  from a b show ?thesis by simp
qed

end
